theory Spec2Isabelle
  imports Main "HOL-Library.Word"
begin

section \<open>The CCS200 spectrometer wrapper (CCS200.py)\<close>

text \<open>
  The module is one class, \<open>Spectrometer\<close>, whose methods call a vendor library through
  ctypes. The vendor library, the loader and the operating system are not part of the
  module: they are an environment \<open>E\<close> that answers each external call with an exception or
  a result. Every external call the wrapper makes is appended to a trace, with its name,
  its marshalled arguments and whether it returned.
\<close>

subsection \<open>Python values and exceptions\<close>

text \<open>A C double is its 64-bit pattern (the wrapper does no arithmetic on it); a ctypes
  \<open>c_int\<close> is a 32-bit cell.\<close>

type_synonym double = "64 word"
type_synonym c_int = "32 word"

datatype exc_class =
    RuntimeError | OSError | AttributeError | TypeError | OverflowError
  | KeyboardInterrupt | SystemExit

text \<open>An exception is its class and its message \<open>str(e)\<close>.\<close>

datatype exn = Exc exc_class string

fun str :: "exn \<Rightarrow> string" where
  "str (Exc c m) = m"

text \<open>\<open>except Exception\<close> matches the subclasses of \<open>Exception\<close>; \<open>KeyboardInterrupt\<close> and
  \<open>SystemExit\<close> derive from \<open>BaseException\<close> only.\<close>

fun is_Exception :: "exn \<Rightarrow> bool" where
  "is_Exception (Exc KeyboardInterrupt m) = False"
| "is_Exception (Exc SystemExit m) = False"
| "is_Exception (Exc c m) = True"

datatype pyval =
    PyNone
  | PyFloat double
  | PyInt int
  | PyStr string
  | PyArray nat
  | PyTuple "pyval list"

text \<open>A marshalled argument of a foreign call, as ctypes passes it.\<close>

datatype carg =
    PyIntArg int
  | BytesArg string
  | C_int c_int
  | C_double double
  | ByRef_int c_int
  | ByRef_array nat
  | C_void_p "nat option"

text \<open>What a foreign call that returns hands back: its C return value, what it stored
  through a pointer to a \<open>c_int\<close> (if anything), and the cells it stored through a pointer
  to an array of doubles.\<close>

record foreign_ret =
  retval :: int
  int_out :: "c_int option"
  arr_out :: "(nat \<times> double) list"

datatype event =
    Chdir string bool
  | Load string bool
  | Call string "carg list" bool

subsection \<open>The environment and the state\<close>

record 'w env =
  int_to_double :: "int \<Rightarrow> double option"
  os_chdir :: "string \<Rightarrow> 'w \<Rightarrow> exn option \<times> 'w"
  LoadLibrary :: "string \<Rightarrow> 'w \<Rightarrow> exn option \<times> 'w"
  foreign :: "string \<Rightarrow> carg list \<Rightarrow> 'w \<Rightarrow> (exn + foreign_ret) \<times> 'w"

text \<open>The process: its current working directory, the ctypes arrays allocated so far
  (an array's address is its position), the trace of external calls, and the state \<open>ext\<close>
  of everything outside the module.\<close>

record 'w state =
  cwd :: string
  heap :: "double list list"
  trace :: "event list"
  ext :: 'w

text \<open>The object: \<open>self.lib\<close> (\<open>None\<close>, or the loaded library) and the value of the
  \<open>c_int\<close> in \<open>self.ccs_handle\<close>.\<close>

record spectrometer =
  lib :: "string option"
  ccs_handle :: c_int

type_synonym 'w outcome = "(exn + pyval) \<times> spectrometer \<times> 'w state"

subsection \<open>Constants of the module\<close>

definition backslash :: char where
  "backslash = CHR 0x5C"

definition quote :: char where
  "quote = CHR 0x27"

definition VISA_BIN :: string where
  "VISA_BIN = ''C:'' @ [backslash] @ ''Program Files'' @ [backslash] @ ''IVI Foundation''
     @ [backslash] @ ''VISA'' @ [backslash] @ ''Win64'' @ [backslash] @ ''Bin''"

definition DLL_NAME :: string where
  "DLL_NAME = ''TLCCS_64.dll''"

definition RESOURCE :: string where
  "RESOURCE = ''USB0::0x1313::0x8089::M00912624::RAW''"

definition NUM_PIXELS :: nat where
  "NUM_PIXELS = 3648"

subsection \<open>ctypes\<close>

text \<open>\<open>c_double(x)\<close>: a float is taken as it is, an int is converted (Python raises
  \<open>OverflowError\<close> when it is too large), anything else is a \<open>TypeError\<close>.\<close>

fun type_name :: "pyval \<Rightarrow> string" where
  "type_name PyNone = ''NoneType''"
| "type_name (PyFloat d) = ''float''"
| "type_name (PyInt i) = ''int''"
| "type_name (PyStr x) = ''str''"
| "type_name (PyArray a) = ''numpy.ndarray''"
| "type_name (PyTuple vs) = ''tuple''"

definition c_double :: "'w env \<Rightarrow> pyval \<Rightarrow> exn + double" where
  "c_double E v =
     (case v of
        PyFloat d \<Rightarrow> Inr d
      | PyInt i \<Rightarrow>
          (case int_to_double E i of
             Some d \<Rightarrow> Inr d
           | None \<Rightarrow> Inl (Exc OverflowError ''int too large to convert to float''))
      | PyArray a \<Rightarrow>
          Inl (Exc TypeError ''only length-1 arrays can be converted to Python scalars'')
      | _ \<Rightarrow> Inl (Exc TypeError (''must be real number, not '' @ type_name v)))"

text \<open>Python's conversion of an int to a float, as \<open>c_double\<close> applies it to an int
  argument: the nearest double, ties to even, and \<open>OverflowError\<close> (here \<open>None\<close>) from
  \<open>2 ^ 1024\<close> on. \<open>bit_length\<close> is Python's \<open>int.bit_length\<close>.\<close>

fun bit_length :: "nat \<Rightarrow> nat" where
  "bit_length n = (if n = 0 then 0 else Suc (bit_length (n div 2)))"

declare bit_length.simps [simp del]

definition round_half_even :: "nat \<Rightarrow> nat \<Rightarrow> nat" where
  "round_half_even n sh =
     (let q = n div 2 ^ sh; r = n mod 2 ^ sh; half = 2 ^ (sh - 1)
      in if half < r \<or> (r = half \<and> odd q) then q + 1 else q)"

definition double_of_int :: "int \<Rightarrow> double option" where
  "double_of_int i =
     (let n = nat \<bar>i\<bar>; sign = (if i < 0 then 2 ^ 63 else 0 :: nat)
      in if n = 0 then Some 0
         else
           (let e = bit_length n - 1
            in if e \<le> 52
               then Some (of_nat (sign + (e + 1023) * 2 ^ 52 + (n * 2 ^ (52 - e) - 2 ^ 52)))
               else
                 (let q = round_half_even n (e - 52);
                      e' = (if q = 2 ^ 53 then e + 1 else e);
                      m = (if q = 2 ^ 53 then 0 else q - 2 ^ 52)
                  in if 1023 < e' then None
                     else Some (of_nat (sign + (e' + 1023) * 2 ^ 52 + m)))))"

text \<open>\<open>(c_double * 3648)()\<close>: a new array, zero-initialised.\<close>

definition alloc_array :: "'w state \<Rightarrow> nat \<times> 'w state" where
  "alloc_array s = (length (heap s), s\<lparr>heap := heap s @ [replicate NUM_PIXELS 0]\<rparr>)"

fun apply_writes :: "(nat \<times> double) list \<Rightarrow> double list \<Rightarrow> double list" where
  "apply_writes [] buf = buf"
| "apply_writes ((i, v) # ws) buf = apply_writes ws (buf[i := v])"

definition write_array :: "nat \<Rightarrow> (nat \<times> double) list \<Rightarrow> 'w state \<Rightarrow> 'w state" where
  "write_array a ws s = s\<lparr>heap := (heap s)[a := apply_writes ws (heap s ! a)]\<rparr>"

fun returned :: "'a + 'b \<Rightarrow> bool" where
  "returned (Inl e) = False"
| "returned (Inr v) = True"

text \<open>\<open>self.lib.name(args)\<close>: on \<open>None\<close> the attribute lookup raises; on a library the
  call goes to the environment and is recorded.\<close>

definition call_lib ::
  "'w env \<Rightarrow> string option \<Rightarrow> string \<Rightarrow> carg list \<Rightarrow> 'w state \<Rightarrow> (exn + foreign_ret) \<times> 'w state" where
  "call_lib E l name args s =
     (case l of
        None \<Rightarrow>
          (Inl (Exc AttributeError
             ([quote] @ ''NoneType'' @ [quote] @ '' object has no attribute '' @ [quote] @ name @ [quote])), s)
      | Some dll \<Rightarrow>
          (case foreign E name args (ext s) of
             (r, w) \<Rightarrow> (r, s\<lparr>trace := trace s @ [Call name args (returned r)], ext := w\<rparr>)))"

text \<open>\<open>try: ... except Exception as e: raise RuntimeError(prefix + str(e))\<close>: what the
  handler makes of an exception of the body, and the whole statement.\<close>

definition reraise :: "string \<Rightarrow> exn \<Rightarrow> exn" where
  "reraise prefix e = (if is_Exception e then Exc RuntimeError (prefix @ str e) else e)"

definition try_except :: "string \<Rightarrow> 'w outcome \<Rightarrow> 'w outcome" where
  "try_except prefix r =
     (case r of
        (Inl e, self, s) \<Rightarrow> (Inl (reraise prefix e), self, s)
      | (Inr v, self, s) \<Rightarrow> (Inr v, self, s))"

subsection \<open>The methods of \<open>Spectrometer\<close>\<close>

text \<open>\<open>_load_library\<close>: change directory, then load the library and keep it in
  \<open>self.lib\<close>.\<close>

definition load_library_body :: "'w env \<Rightarrow> spectrometer \<times> 'w state \<Rightarrow> 'w outcome" where
  "load_library_body E p =
     (case p of (self, s) \<Rightarrow>
        (case os_chdir E VISA_BIN (ext s) of
           (Some e, w1) \<Rightarrow>
             (Inl e, self, s\<lparr>trace := trace s @ [Chdir VISA_BIN False], ext := w1\<rparr>)
         | (None, w1) \<Rightarrow>
             (let s1 = s\<lparr>cwd := VISA_BIN, trace := trace s @ [Chdir VISA_BIN True], ext := w1\<rparr>
              in case LoadLibrary E DLL_NAME (ext s1) of
                   (Some e, w2) \<Rightarrow>
                     (Inl e, self, s1\<lparr>trace := trace s1 @ [Load DLL_NAME False], ext := w2\<rparr>)
                 | (None, w2) \<Rightarrow>
                     (Inr PyNone, self\<lparr>lib := Some DLL_NAME\<rparr>,
                      s1\<lparr>trace := trace s1 @ [Load DLL_NAME True], ext := w2\<rparr>))))"

definition load_library :: "'w env \<Rightarrow> spectrometer \<times> 'w state \<Rightarrow> 'w outcome" where
  "load_library E p = try_except ''Failed to load spectrometer DLL: '' (load_library_body E p)"

text \<open>\<open>_initialize_device\<close>: \<open>tlccs_init\<close> stores the session handle through
  \<open>byref(self.ccs_handle)\<close>.\<close>

definition initialize_device_body :: "'w env \<Rightarrow> spectrometer \<times> 'w state \<Rightarrow> 'w outcome" where
  "initialize_device_body E p =
     (case p of (self, s) \<Rightarrow>
        (case call_lib E (lib self) ''tlccs_init''
                [BytesArg RESOURCE, PyIntArg 1, PyIntArg 1, ByRef_int (ccs_handle self)] s of
           (Inl e, s1) \<Rightarrow> (Inl e, self, s1)
         | (Inr r, s1) \<Rightarrow>
             (Inr PyNone,
              (case int_out r of None \<Rightarrow> self | Some h \<Rightarrow> self\<lparr>ccs_handle := h\<rparr>), s1)))"

definition initialize_device :: "'w env \<Rightarrow> spectrometer \<times> 'w state \<Rightarrow> 'w outcome" where
  "initialize_device E p =
     try_except ''Failed to initialize spectrometer: '' (initialize_device_body E p)"

text \<open>\<open>__init__\<close>: the two fields, then the two steps; an exception of the first step
  leaves \<open>__init__\<close> at once.\<close>

definition init :: "'w env \<Rightarrow> 'w state \<Rightarrow> 'w outcome" where
  "init E s =
     (case load_library E (\<lparr>lib = None, ccs_handle = 0\<rparr>, s) of
        (Inl e, self, s1) \<Rightarrow> (Inl e, self, s1)
      | (Inr v, self, s1) \<Rightarrow> initialize_device E (self, s1))"

definition set_integration_time_body ::
  "'w env \<Rightarrow> pyval \<Rightarrow> spectrometer \<times> 'w state \<Rightarrow> 'w outcome" where
  "set_integration_time_body E time_in_seconds p =
     (case p of (self, s) \<Rightarrow>
        (case c_double E time_in_seconds of
           Inl e \<Rightarrow> (Inl e, self, s)
         | Inr integration_time \<Rightarrow>
             (case call_lib E (lib self) ''tlccs_setIntegrationTime''
                     [C_int (ccs_handle self), C_double integration_time] s of
                (Inl e, s1) \<Rightarrow> (Inl e, self, s1)
              | (Inr r, s1) \<Rightarrow> (Inr PyNone, self, s1))))"

definition set_integration_time ::
  "'w env \<Rightarrow> pyval \<Rightarrow> spectrometer \<times> 'w state \<Rightarrow> 'w outcome" where
  "set_integration_time E time_in_seconds p =
     try_except ''Failed to set integration time: '' (set_integration_time_body E time_in_seconds p)"

definition start_scan_body :: "'w env \<Rightarrow> spectrometer \<times> 'w state \<Rightarrow> 'w outcome" where
  "start_scan_body E p =
     (case p of (self, s) \<Rightarrow>
        (case call_lib E (lib self) ''tlccs_startScan'' [C_int (ccs_handle self)] s of
           (Inl e, s1) \<Rightarrow> (Inl e, self, s1)
         | (Inr r, s1) \<Rightarrow> (Inr PyNone, self, s1)))"

definition start_scan :: "'w env \<Rightarrow> spectrometer \<times> 'w state \<Rightarrow> 'w outcome" where
  "start_scan E p = try_except ''Failed to start scan: '' (start_scan_body E p)"

text \<open>\<open>get_scan_data\<close>: a new array for the wavelengths, filled by
  \<open>tlccs_getWavelengthData\<close>; a new array for the intensities, filled by
  \<open>tlccs_getScanData\<close>; \<open>np.ctypeslib.as_array\<close> gives an array on the same memory.\<close>

definition as_array :: "nat \<Rightarrow> pyval" where
  "as_array a = PyArray a"

definition get_scan_data_body :: "'w env \<Rightarrow> spectrometer \<times> 'w state \<Rightarrow> 'w outcome" where
  "get_scan_data_body E p =
     (case p of (self, s) \<Rightarrow>
        (case alloc_array s of (wavelengths, s1) \<Rightarrow>
           (case call_lib E (lib self) ''tlccs_getWavelengthData''
                   [C_int (ccs_handle self), PyIntArg 0, ByRef_array wavelengths,
                    C_void_p None, C_void_p None] s1 of
              (Inl e, s2) \<Rightarrow> (Inl e, self, s2)
            | (Inr r1, s2) \<Rightarrow>
                (case alloc_array (write_array wavelengths (arr_out r1) s2) of
                   (data_array, s3) \<Rightarrow>
                     (case call_lib E (lib self) ''tlccs_getScanData''
                             [C_int (ccs_handle self), ByRef_array data_array] s3 of
                        (Inl e, s4) \<Rightarrow> (Inl e, self, s4)
                      | (Inr r2, s4) \<Rightarrow>
                          (Inr (PyTuple [as_array wavelengths, as_array data_array]), self,
                           write_array data_array (arr_out r2) s4))))))"

definition get_scan_data :: "'w env \<Rightarrow> spectrometer \<times> 'w state \<Rightarrow> 'w outcome" where
  "get_scan_data E p = try_except ''Failed to retrieve scan data: '' (get_scan_data_body E p)"

definition close_body :: "'w env \<Rightarrow> spectrometer \<times> 'w state \<Rightarrow> 'w outcome" where
  "close_body E p =
     (case p of (self, s) \<Rightarrow>
        (case call_lib E (lib self) ''tlccs_close'' [C_int (ccs_handle self)] s of
           (Inl e, s1) \<Rightarrow> (Inl e, self, s1)
         | (Inr r, s1) \<Rightarrow> (Inr PyNone, self, s1)))"

definition close :: "'w env \<Rightarrow> spectrometer \<times> 'w state \<Rightarrow> 'w outcome" where
  "close E p = try_except ''Failed to close spectrometer: '' (close_body E p)"

subsection \<open>Clients\<close>

text \<open>A client constructs one object and then calls its public methods in any order
  with any arguments, going on after a method has raised. When the constructor raises
  there is no object, and the client has nothing to call.\<close>

datatype op = SetIntegrationTime pyval | StartScan | GetScanData | Close

fun do_op :: "'w env \<Rightarrow> op \<Rightarrow> spectrometer \<times> 'w state \<Rightarrow> 'w outcome" where
  "do_op E (SetIntegrationTime t) p = set_integration_time E t p"
| "do_op E StartScan p = start_scan E p"
| "do_op E GetScanData p = get_scan_data E p"
| "do_op E Close p = close E p"

fun run_ops :: "'w env \<Rightarrow> op list \<Rightarrow> spectrometer \<times> 'w state \<Rightarrow> spectrometer \<times> 'w state" where
  "run_ops E [] p = p"
| "run_ops E (x # xs) p = run_ops E xs (snd (do_op E x p))"

definition session :: "'w env \<Rightarrow> op list \<Rightarrow> 'w state \<Rightarrow> 'w state" where
  "session E xs s =
     (case init E s of
        (Inl e, self, s1) \<Rightarrow> s1
      | (Inr v, self, s1) \<Rightarrow> snd (run_ops E xs (self, s1)))"

text \<open>The events a run appended to the trace.\<close>

definition new_events :: "'w state \<Rightarrow> 'w state \<Rightarrow> event list" where
  "new_events s s' = drop (length (trace s)) (trace s')"

subsection \<open>Reading a trace\<close>

fun ev_name :: "event \<Rightarrow> string" where
  "ev_name (Chdir d ok) = ''os.chdir''"
| "ev_name (Load n ok) = ''cdll.LoadLibrary''"
| "ev_name (Call n args ok) = n"

fun ev_ok :: "event \<Rightarrow> bool" where
  "ev_ok (Chdir d ok) = ok"
| "ev_ok (Load n ok) = ok"
| "ev_ok (Call n args ok) = ok"

text \<open>The vendor functions called, in order.\<close>

fun called :: "event list \<Rightarrow> string list" where
  "called [] = []"
| "called (Call n args ok # es) = n # called es"
| "called (e # es) = called es"

text \<open>The argument lists of the calls of one vendor function.\<close>

fun args_of :: "string \<Rightarrow> event list \<Rightarrow> carg list list" where
  "args_of f [] = []"
| "args_of f (Call n args ok # es) = (if n = f then args # args_of f es else args_of f es)"
| "args_of f (e # es) = args_of f es"


text \<open>An external call that raised is the last one.\<close>

fun stops_at_failure :: "event list \<Rightarrow> bool" where
  "stops_at_failure [] = True"
| "stops_at_failure [e] = True"
| "stops_at_failure (e # es) = (ev_ok e \<and> stops_at_failure es)"

text \<open>The last value stored at an index by a list of stores.\<close>

fun last_write :: "(nat \<times> double) list \<Rightarrow> nat \<Rightarrow> double option" where
  "last_write [] i = None"
| "last_write ((j, v) # ws) i =
     (case last_write ws i of Some x \<Rightarrow> Some x | None \<Rightarrow> if j = i then Some v else None)"

text \<open>The prefix of the message of each method's \<open>RuntimeError\<close>.\<close>

fun op_prefix :: "op \<Rightarrow> string" where
  "op_prefix (SetIntegrationTime t) = ''Failed to set integration time: ''"
| "op_prefix StartScan = ''Failed to start scan: ''"
| "op_prefix GetScanData = ''Failed to retrieve scan data: ''"
| "op_prefix Close = ''Failed to close spectrometer: ''"

text \<open>Whether marshalling the arguments of a method raises, before any call.\<close>

fun conversion_fails :: "'w env \<Rightarrow> op \<Rightarrow> bool" where
  "conversion_fails E (SetIntegrationTime t) = (\<not> returned (c_double E t))"
| "conversion_fails E x = False"

subsection \<open>Simulated environments\<close>

text \<open>A device that answers every call: ints convert to doubles as in Python, the
  directory exists, the library loads, the external state counts the vendor calls,
  each call returns status 5, stores 7 through a \<open>c_int\<close> pointer and stores the new count
  in cell 0 of an array.\<close>

definition sim_env :: "nat env" where
  "sim_env =
     \<lparr>int_to_double = double_of_int,
      os_chdir = (\<lambda>d w. (None, w)),
      LoadLibrary = (\<lambda>n w. (None, w)),
      foreign = (\<lambda>n args w.
        (Inr \<lparr>retval = 5, int_out = Some 7, arr_out = [(0, of_nat (Suc w))]\<rparr>, Suc w))\<rparr>"

text \<open>The same machine with vendor calls that raise: an \<open>OSError\<close>, and a
  \<open>KeyboardInterrupt\<close>.\<close>

definition oserror_env :: "nat env" where
  "oserror_env = sim_env\<lparr>foreign := (\<lambda>n args w. (Inl (Exc OSError ''access violation''), w))\<rparr>"

definition interrupt_env :: "nat env" where
  "interrupt_env = sim_env\<lparr>foreign := (\<lambda>n args w. (Inl (Exc KeyboardInterrupt []), w))\<rparr>"

definition start_state :: "nat state" where
  "start_state = \<lparr>cwd = ''C:'', heap = [], trace = [], ext = 0\<rparr>"

text \<open>The object and the state that \<open>__init__\<close> leaves in the simulated environment.\<close>

definition sim_obj :: spectrometer where
  "sim_obj = \<lparr>lib = Some DLL_NAME, ccs_handle = 7\<rparr>"

definition sim_state :: "nat state" where
  "sim_state =
     \<lparr>cwd = VISA_BIN, heap = [],
      trace = [Chdir VISA_BIN True, Load DLL_NAME True,
               Call ''tlccs_init'' [BytesArg RESOURCE, PyIntArg 1, PyIntArg 1, ByRef_int 0] True],
      ext = 1\<rparr>"

section \<open>What each method does\<close>

text \<open>Each method, with its \<open>try\<close> statement and its call through \<open>self.lib\<close> unfolded:
  what it returns or raises, and what it leaves in the state.\<close>

lemma length_apply_writes: "length (apply_writes ws buf) = length buf"
  by (induction ws arbitrary: buf) auto

lemma nth_apply_writes:
  "i < length buf \<Longrightarrow>
   apply_writes ws buf ! i = (case last_write ws i of Some x \<Rightarrow> x | None \<Rightarrow> buf ! i)"
  by (induction ws arbitrary: buf) (auto split: option.splits if_splits)

lemma set_integration_time_conv:
  "c_double E t = Inl e \<Longrightarrow>
   set_integration_time E t (self, s) = (Inl (reraise ''Failed to set integration time: '' e), self, s)"
  by (simp add: set_integration_time_def set_integration_time_body_def try_except_def)

lemma set_integration_time_None:
  "lib self = None \<Longrightarrow> c_double E t = Inr d \<Longrightarrow> 
   set_integration_time E t (self, s) =
     (Inl (reraise ''Failed to set integration time: '' (Exc AttributeError
             ([quote] @ ''NoneType'' @ [quote] @ '' object has no attribute '' @ [quote] @ ''tlccs_setIntegrationTime'' @ [quote]))), self, s)"
  by (simp add: set_integration_time_def set_integration_time_body_def try_except_def call_lib_def)

lemma set_integration_time_Some:
  "lib self = Some l \<Longrightarrow> c_double E t = Inr d \<Longrightarrow>
   set_integration_time E t (self, s) =
     (case foreign E ''tlccs_setIntegrationTime'' [C_int (ccs_handle self), C_double d] (ext s) of
        (r, w) \<Rightarrow>
          ((case r of Inl e \<Rightarrow> Inl (reraise ''Failed to set integration time: '' e)
                    | Inr ret \<Rightarrow> Inr PyNone),
           self,
           s\<lparr>trace := trace s @ [Call ''tlccs_setIntegrationTime''
                                    [C_int (ccs_handle self), C_double d] (returned r)],
             ext := w\<rparr>))"
  by (simp add: set_integration_time_def set_integration_time_body_def try_except_def call_lib_def
      split: prod.splits sum.splits)

lemma start_scan_None:
  "lib self = None \<Longrightarrow>
   start_scan E (self, s) =
     (Inl (reraise ''Failed to start scan: '' (Exc AttributeError
             ([quote] @ ''NoneType'' @ [quote] @ '' object has no attribute '' @ [quote] @ ''tlccs_startScan'' @ [quote]))), self, s)"
  by (simp add: start_scan_def start_scan_body_def try_except_def call_lib_def)

lemma start_scan_Some:
  "lib self = Some l \<Longrightarrow>
   start_scan E (self, s) =
     (case foreign E ''tlccs_startScan'' [C_int (ccs_handle self)] (ext s) of
        (r, w) \<Rightarrow>
          ((case r of Inl e \<Rightarrow> Inl (reraise ''Failed to start scan: '' e) | Inr ret \<Rightarrow> Inr PyNone),
           self,
           s\<lparr>trace := trace s @ [Call ''tlccs_startScan'' [C_int (ccs_handle self)] (returned r)],
             ext := w\<rparr>))"
  by (simp add: start_scan_def start_scan_body_def try_except_def call_lib_def
      split: prod.splits sum.splits)

lemma close_None:
  "lib self = None \<Longrightarrow>
   close E (self, s) =
     (Inl (reraise ''Failed to close spectrometer: '' (Exc AttributeError
             ([quote] @ ''NoneType'' @ [quote] @ '' object has no attribute '' @ [quote] @ ''tlccs_close'' @ [quote]))), self, s)"
  by (simp add: close_def close_body_def try_except_def call_lib_def)

lemma close_Some:
  "lib self = Some l \<Longrightarrow>
   close E (self, s) =
     (case foreign E ''tlccs_close'' [C_int (ccs_handle self)] (ext s) of
        (r, w) \<Rightarrow>
          ((case r of Inl e \<Rightarrow> Inl (reraise ''Failed to close spectrometer: '' e)
                    | Inr ret \<Rightarrow> Inr PyNone),
           self,
           s\<lparr>trace := trace s @ [Call ''tlccs_close'' [C_int (ccs_handle self)] (returned r)],
             ext := w\<rparr>))"
  by (simp add: close_def close_body_def try_except_def call_lib_def
      split: prod.splits sum.splits)

lemma get_scan_data_None:
  "lib self = None \<Longrightarrow>
   get_scan_data E (self, s) =
     (Inl (reraise ''Failed to retrieve scan data: '' (Exc AttributeError
             ([quote] @ ''NoneType'' @ [quote] @ '' object has no attribute '' @ [quote] @ ''tlccs_getWavelengthData'' @ [quote]))),
      self, s\<lparr>heap := heap s @ [replicate NUM_PIXELS 0]\<rparr>)"
  by (simp add: get_scan_data_def get_scan_data_body_def try_except_def call_lib_def alloc_array_def)

lemma get_scan_data_Some:
  "lib self = Some l \<Longrightarrow>
   get_scan_data E (self, s) =
     (case foreign E ''tlccs_getWavelengthData''
             [C_int (ccs_handle self), PyIntArg 0, ByRef_array (length (heap s)),
              C_void_p None, C_void_p None] (ext s) of
        (Inl e, w1) \<Rightarrow>
          (Inl (reraise ''Failed to retrieve scan data: '' e), self,
           s\<lparr>heap := heap s @ [replicate NUM_PIXELS 0],
             trace := trace s @ [Call ''tlccs_getWavelengthData''
               [C_int (ccs_handle self), PyIntArg 0, ByRef_array (length (heap s)),
                C_void_p None, C_void_p None] False],
             ext := w1\<rparr>)
      | (Inr r1, w1) \<Rightarrow>
          (case foreign E ''tlccs_getScanData''
                  [C_int (ccs_handle self), ByRef_array (Suc (length (heap s)))] w1 of
             (Inl e, w2) \<Rightarrow>
               (Inl (reraise ''Failed to retrieve scan data: '' e), self,
                s\<lparr>heap := heap s @ [apply_writes (arr_out r1) (replicate NUM_PIXELS 0),
                                      replicate NUM_PIXELS 0],
                  trace := trace s @
                    [Call ''tlccs_getWavelengthData''
                       [C_int (ccs_handle self), PyIntArg 0, ByRef_array (length (heap s)),
                        C_void_p None, C_void_p None] True,
                     Call ''tlccs_getScanData''
                       [C_int (ccs_handle self), ByRef_array (Suc (length (heap s)))] False],
                  ext := w2\<rparr>)
           | (Inr r2, w2) \<Rightarrow>
               (Inr (PyTuple [PyArray (length (heap s)), PyArray (Suc (length (heap s)))]), self,
                s\<lparr>heap := heap s @ [apply_writes (arr_out r1) (replicate NUM_PIXELS 0),
                                      apply_writes (arr_out r2) (replicate NUM_PIXELS 0)],
                  trace := trace s @
                    [Call ''tlccs_getWavelengthData''
                       [C_int (ccs_handle self), PyIntArg 0, ByRef_array (length (heap s)),
                        C_void_p None, C_void_p None] True,
                     Call ''tlccs_getScanData''
                       [C_int (ccs_handle self), ByRef_array (Suc (length (heap s)))] True],
                  ext := w2\<rparr>)))"
  by (simp add: get_scan_data_def get_scan_data_body_def call_lib_def try_except_def alloc_array_def
      write_array_def as_array_def nth_append list_update_append
      split: prod.splits sum.splits)

lemma init_eq:
  "init E s =
     (case os_chdir E VISA_BIN (ext s) of
        (Some e, w1) \<Rightarrow>
          (Inl (reraise ''Failed to load spectrometer DLL: '' e), \<lparr>lib = None, ccs_handle = 0\<rparr>,
           s\<lparr>trace := trace s @ [Chdir VISA_BIN False], ext := w1\<rparr>)
      | (None, w1) \<Rightarrow>
          (case LoadLibrary E DLL_NAME w1 of
             (Some e, w2) \<Rightarrow>
               (Inl (reraise ''Failed to load spectrometer DLL: '' e),
                \<lparr>lib = None, ccs_handle = 0\<rparr>,
                s\<lparr>cwd := VISA_BIN,
                  trace := trace s @ [Chdir VISA_BIN True, Load DLL_NAME False], ext := w2\<rparr>)
           | (None, w2) \<Rightarrow>
               (case foreign E ''tlccs_init''
                       [BytesArg RESOURCE, PyIntArg 1, PyIntArg 1, ByRef_int 0] w2 of
                  (Inl e, w3) \<Rightarrow>
                    (Inl (reraise ''Failed to initialize spectrometer: '' e),
                     \<lparr>lib = Some DLL_NAME, ccs_handle = 0\<rparr>,
                     s\<lparr>cwd := VISA_BIN,
                       trace := trace s @ [Chdir VISA_BIN True, Load DLL_NAME True,
                         Call ''tlccs_init''
                           [BytesArg RESOURCE, PyIntArg 1, PyIntArg 1, ByRef_int 0] False],
                       ext := w3\<rparr>)
                | (Inr r, w3) \<Rightarrow>
                    (Inr PyNone,
                     \<lparr>lib = Some DLL_NAME,
                      ccs_handle = (case int_out r of None \<Rightarrow> 0 | Some h \<Rightarrow> h)\<rparr>,
                     s\<lparr>cwd := VISA_BIN,
                       trace := trace s @ [Chdir VISA_BIN True, Load DLL_NAME True,
                         Call ''tlccs_init''
                           [BytesArg RESOURCE, PyIntArg 1, PyIntArg 1, ByRef_int 0] True],
                       ext := w3\<rparr>))))"
  by (auto simp: init_def load_library_def load_library_body_def initialize_device_def
      initialize_device_body_def call_lib_def try_except_def Let_def
      split: prod.splits sum.splits option.splits)

lemma init_sim: "init sim_env start_state = (Inr PyNone, sim_obj, sim_state)"
  by (simp add: init_eq sim_env_def start_state_def sim_obj_def sim_state_def)

lemma sim_fields:
  "lib sim_obj = Some DLL_NAME" "ccs_handle sim_obj = 7" "ext sim_state = 1"
  "heap sim_state = []" "cwd sim_state = VISA_BIN"
  by (simp_all add: sim_obj_def sim_state_def)

subsection \<open>The events of one invocation\<close>

lemma get_scan_data_events:
  assumes "lib self = Some l"
  shows "new_events s (snd (snd (get_scan_data E (self, s)))) =
       (case fst (foreign E ''tlccs_getWavelengthData''
                    [C_int (ccs_handle self), PyIntArg 0, ByRef_array (length (heap s)),
                     C_void_p None, C_void_p None] (ext s)) of
          Inl e \<Rightarrow>
            [Call ''tlccs_getWavelengthData''
               [C_int (ccs_handle self), PyIntArg 0, ByRef_array (length (heap s)),
                C_void_p None, C_void_p None] False]
        | Inr r1 \<Rightarrow>
            [Call ''tlccs_getWavelengthData''
               [C_int (ccs_handle self), PyIntArg 0, ByRef_array (length (heap s)),
                C_void_p None, C_void_p None] True,
             Call ''tlccs_getScanData''
               [C_int (ccs_handle self), ByRef_array (Suc (length (heap s)))]
               (returned (fst (get_scan_data E (self, s))))])"
  by (simp add: get_scan_data_Some [OF assms] new_events_def split: prod.splits sum.splits)

lemma init_events:
  "new_events s (snd (snd (init E s))) =
       (case fst (os_chdir E VISA_BIN (ext s)) of
          Some e \<Rightarrow> [Chdir VISA_BIN False]
        | None \<Rightarrow>
            (case fst (LoadLibrary E DLL_NAME (snd (os_chdir E VISA_BIN (ext s)))) of
               Some e \<Rightarrow> [Chdir VISA_BIN True, Load DLL_NAME False]
             | None \<Rightarrow>
                 [Chdir VISA_BIN True, Load DLL_NAME True,
                  Call ''tlccs_init''
                    [BytesArg ''USB0::0x1313::0x8089::M00912624::RAW'', PyIntArg 1, PyIntArg 1,
                     ByRef_int 0]
                    (returned (fst (init E s)))]))"
  by (auto simp: init_eq new_events_def RESOURCE_def split: prod.splits sum.splits option.splits)

subsection \<open>A scan that returns\<close>

lemma get_scan_data_success:
  assumes "fst (get_scan_data E (self, s)) = Inr v"
  shows "\<exists>r1 w1 r2 w2.
     foreign E ''tlccs_getWavelengthData''
       [C_int (ccs_handle self), PyIntArg 0, ByRef_array (length (heap s)),
        C_void_p None, C_void_p None] (ext s) = (Inr r1, w1)
     \<and> foreign E ''tlccs_getScanData''
         [C_int (ccs_handle self), ByRef_array (Suc (length (heap s)))] w1 = (Inr r2, w2)
     \<and> v = PyTuple [PyArray (length (heap s)), PyArray (Suc (length (heap s)))]
     \<and> heap (snd (snd (get_scan_data E (self, s)))) =
         heap s @ [apply_writes (arr_out r1) (replicate NUM_PIXELS 0),
                   apply_writes (arr_out r2) (replicate NUM_PIXELS 0)]"
proof (cases "lib self")
  case None
  with assms show ?thesis
    by (simp add: get_scan_data_None)
next
  case (Some l)
  with assms show ?thesis
    by (auto simp: get_scan_data_Some split: prod.splits sum.splits)
qed

lemma sim_scan:
  "get_scan_data sim_env (sim_obj, sim_state) =
     (Inr (PyTuple [PyArray 0, PyArray 1]), sim_obj,
      sim_state\<lparr>heap := [apply_writes [(0, 2)] (replicate NUM_PIXELS 0),
                         apply_writes [(0, 3)] (replicate NUM_PIXELS 0)],
        trace := trace sim_state @
          [Call ''tlccs_getWavelengthData''
             [C_int 7, PyIntArg 0, ByRef_array 0, C_void_p None, C_void_p None] True,
           Call ''tlccs_getScanData'' [C_int 7, ByRef_array 1] True],
        ext := 3\<rparr>)"
  by (simp add: get_scan_data_Some [OF sim_fields(1)] sim_fields sim_env_def)

subsection \<open>What no method changes\<close>

lemmas method_defs =
  set_integration_time_def set_integration_time_body_def start_scan_def start_scan_body_def
  get_scan_data_def get_scan_data_body_def close_def close_body_def
  try_except_def call_lib_def alloc_array_def write_array_def

lemma do_op_self: "fst (snd (do_op E x (self, s))) = self"
  by (cases x) (auto simp: method_defs split: prod.splits sum.splits option.splits)

lemma do_op_cwd: "cwd (snd (snd (do_op E x (self, s)))) = cwd s"
  by (cases x) (auto simp: method_defs split: prod.splits sum.splits option.splits)


lemma do_op_trace:
  "trace (snd (snd (do_op E x (self, s)))) = trace s @ new_events s (snd (snd (do_op E x (self, s))))"
  by (cases x) (auto simp: method_defs new_events_def split: prod.splits sum.splits option.splits)

lemma do_op_events:
  "new_events s (snd (snd (do_op E x (self, s)))) = [] \<or>
   (\<exists>n args ok. new_events s (snd (snd (do_op E x (self, s)))) = [Call n args ok]
      \<and> lib self \<noteq> None 
      \<and> n \<in> {''tlccs_setIntegrationTime'', ''tlccs_startScan'', ''tlccs_getWavelengthData'',
              ''tlccs_close''}) \<or>
   (\<exists>a1 a2 ok. new_events s (snd (snd (do_op E x (self, s)))) =
      [Call ''tlccs_getWavelengthData'' a1 True, Call ''tlccs_getScanData'' a2 ok]
      \<and> lib self \<noteq> None)"
  by (cases x) (auto simp: method_defs new_events_def split: prod.splits sum.splits option.splits)

subsection \<open>Runs of methods and sessions\<close>

lemma called_append: "called (xs @ ys) = called xs @ called ys"
  by (induction xs rule: called.induct) auto

lemma args_of_append: "args_of f (xs @ ys) = args_of f xs @ args_of f ys"
  by (induction f xs rule: args_of.induct) auto


lemma run_ops_self: "fst (run_ops E xs (self, s)) = self"
proof (induction xs arbitrary: s)
  case Nil
  show ?case by simp
next
  case (Cons x xs)
  obtain r self' s' where d: "do_op E x (self, s) = (r, self', s')"
    by (cases "do_op E x (self, s)")
  with do_op_self [of E x self s] have "self' = self"
    by simp
  with d Cons show ?case
    by simp
qed

lemma run_ops_cwd: "cwd (snd (run_ops E xs (self, s))) = cwd s"
proof (induction xs arbitrary: s)
  case Nil
  show ?case by simp
next
  case (Cons x xs)
  obtain r self' s' where d: "do_op E x (self, s) = (r, self', s')"
    by (cases "do_op E x (self, s)")
  with do_op_self [of E x self s] do_op_cwd [of E x self s] have "self' = self" "cwd s' = cwd s"
    by simp_all
  with d Cons show ?case
    by simp
qed

text \<open>The calls of a run of methods on an object whose library is loaded.\<close>

lemma do_op_called:
  "set (called (new_events s (snd (snd (do_op E x (self, s)))))) \<subseteq>
     {''tlccs_setIntegrationTime'', ''tlccs_startScan'', ''tlccs_getWavelengthData'',
      ''tlccs_getScanData'', ''tlccs_close''}"
  using do_op_events [of s E x self] by auto

lemma do_op_only_calls:
  "called (new_events s (snd (snd (do_op E x (self, s))))) =
     map ev_name (new_events s (snd (snd (do_op E x (self, s)))))"
  using do_op_events [of s E x self] by auto

lemma run_ops_trace:
  "\<exists>es. trace (snd (run_ops E xs (self, s))) = trace s @ es
     \<and> called es = map ev_name es
     \<and> set (called es) \<subseteq>
       {''tlccs_setIntegrationTime'', ''tlccs_startScan'', ''tlccs_getWavelengthData'',
        ''tlccs_getScanData'', ''tlccs_close''}"
proof (induction xs arbitrary: s)
  case Nil
  show ?case by simp
next
  case (Cons x xs)
  obtain r self' s' where d: "do_op E x (self, s) = (r, self', s')"
    by (cases "do_op E x (self, s)")
  with do_op_self [of E x self s] have self': "self' = self"
    by simp
  from d do_op_trace [of E x self s] have t: "trace s' = trace s @ new_events s s'"
    by simp
  from d do_op_called [of s E x self] have c: "set (called (new_events s s')) \<subseteq>
     {''tlccs_setIntegrationTime'', ''tlccs_startScan'', ''tlccs_getWavelengthData'',
      ''tlccs_getScanData'', ''tlccs_close''}"
    by simp
  from d do_op_only_calls [of s E x self]
  have o: "called (new_events s s') = map ev_name (new_events s s')"
    by simp
  from Cons [of s'] obtain es where es: "trace (snd (run_ops E xs (self, s'))) = trace s' @ es"
    "called es = map ev_name es"
    "set (called es) \<subseteq>
       {''tlccs_setIntegrationTime'', ''tlccs_startScan'', ''tlccs_getWavelengthData'',
        ''tlccs_getScanData'', ''tlccs_close''}"
    by blast
  have "trace (snd (run_ops E (x # xs) (self, s))) = trace s @ (new_events s s' @ es)"
    using d self' t es(1) by simp
  moreover have "called (new_events s s' @ es) = map ev_name (new_events s s' @ es)"
    using o es(2) by (simp add: called_append)
  moreover have "set (called (new_events s s' @ es)) \<subseteq>
       {''tlccs_setIntegrationTime'', ''tlccs_startScan'', ''tlccs_getWavelengthData'',
        ''tlccs_getScanData'', ''tlccs_close''}"
    using c es(3) by (simp add: called_append)
  ultimately show ?case
    by blast
qed

text \<open>A session: the events of the constructor, then those of the methods.\<close>

lemma init_trace: "trace (snd (snd (init E s))) = trace s @ new_events s (snd (snd (init E s)))"
  by (auto simp: init_eq new_events_def split: prod.splits sum.splits option.splits)

lemma session_events:
  "\<exists>es. new_events s (session E xs s) = new_events s (snd (snd (init E s))) @ es
     \<and> (\<not> returned (fst (init E s)) \<longrightarrow> es = [])
     \<and> called es = map ev_name es
     \<and> set (called es) \<subseteq>
       {''tlccs_setIntegrationTime'', ''tlccs_startScan'', ''tlccs_getWavelengthData'',
        ''tlccs_getScanData'', ''tlccs_close''}"
proof -
  obtain r self s1 where i: "init E s = (r, self, s1)"
    by (cases "init E s")
  from i init_trace [of E s] have t: "trace s1 = trace s @ new_events s s1"
    by simp
  show ?thesis
  proof (cases r)
    case (Inl e)
    with i have "session E xs s = s1"
      by (simp add: session_def)
    with i Inl show ?thesis
      by simp
  next
    case (Inr v)
    with i have s: "session E xs s = snd (run_ops E xs (self, s1))"
      by (simp add: session_def)
    from run_ops_trace [of E xs self s1] obtain es where
      es: "trace (snd (run_ops E xs (self, s1))) = trace s1 @ es"
      "called es = map ev_name es"
      "set (called es) \<subseteq>
       {''tlccs_setIntegrationTime'', ''tlccs_startScan'', ''tlccs_getWavelengthData'',
        ''tlccs_getScanData'', ''tlccs_close''}"
      by blast
    have "trace (session E xs s) = trace s @ (new_events s s1 @ es)"
      using s es(1) t by simp
    then have "new_events s (session E xs s) = new_events s s1 @ es"
      by (simp add: new_events_def)
    with i Inr es(2) es(3) show ?thesis
      by simp
  qed
qed

lemma session_cwd:
  "cwd (session E xs s) = cwd (snd (snd (init E s)))"
proof -
  obtain r self s1 where i: "init E s = (r, self, s1)"
    by (cases "init E s")
  then show ?thesis
    by (cases r) (simp_all add: session_def run_ops_cwd)
qed

lemma init_cwd:
  "cwd (snd (snd (init E s))) = (if fst (os_chdir E VISA_BIN (ext s)) = None then VISA_BIN else cwd s)"
  by (auto simp: init_eq split: prod.splits sum.splits option.splits)


lemma init_returned:
  "returned (fst (init E s)) = list_all ev_ok (new_events s (snd (snd (init E s))))"
  by (auto simp: init_eq new_events_def split: prod.splits sum.splits option.splits)

lemma called_append_subset:
  "set (called es1) \<subseteq> {a} \<Longrightarrow> set (called es2) \<subseteq> F \<Longrightarrow>
   set (called (es1 @ es2)) \<subseteq> insert a F"
  by (auto simp: called_append)

lemma sim_session:
  "new_events start_state
     (session sim_env [SetIntegrationTime (PyFloat 0), StartScan, GetScanData, Close] start_state) =
   [Chdir VISA_BIN True, Load DLL_NAME True,
    Call ''tlccs_init'' [BytesArg RESOURCE, PyIntArg 1, PyIntArg 1, ByRef_int 0] True,
    Call ''tlccs_setIntegrationTime'' [C_int 7, C_double 0] True,
    Call ''tlccs_startScan'' [C_int 7] True,
    Call ''tlccs_getWavelengthData''
      [C_int 7, PyIntArg 0, ByRef_array 0, C_void_p None, C_void_p None] True,
    Call ''tlccs_getScanData'' [C_int 7, ByRef_array 1] True,
    Call ''tlccs_close'' [C_int 7] True]"
proof -
  have c: "c_double sim_env (PyFloat 0) = Inr 0"
    by (simp add: c_double_def)
  note r = set_integration_time_Some [OF sim_fields(1) c] start_scan_Some [OF sim_fields(1)]
    get_scan_data_Some [OF sim_fields(1)] close_Some [OF sim_fields(1)]
  have f: "foreign sim_env = (\<lambda>n args w.
        (Inr \<lparr>retval = 5, int_out = Some 7, arr_out = [(0, of_nat (Suc w))]\<rparr>, Suc w))"
    by (simp add: sim_env_def)
  show ?thesis
    by (simp add: session_def init_sim r f sim_fields new_events_def)
       (simp add: sim_state_def start_state_def)
qed



subsection \<open>How a method fails\<close>

lemma reraise_cases:
  "(\<exists>m. reraise p e = Exc RuntimeError (p @ m)) \<or> \<not> is_Exception (reraise p e)"
  by (auto simp: reraise_def)

lemma do_op_reraised:
  "fst (do_op E x (self, s)) = Inl e \<Longrightarrow> \<exists>e0. e = reraise (op_prefix x) e0"
  by (cases x)
     (auto simp: method_defs split: prod.splits sum.splits option.splits)

lemma do_op_failure:
  assumes "fst (do_op E x (self, s)) = Inl e"
  shows "(\<exists>m. e = Exc RuntimeError (op_prefix x @ m)) \<or> \<not> is_Exception e"
proof -
  from do_op_reraised [OF assms] obtain e0 where e: "e = reraise (op_prefix x) e0" ..
  show ?thesis
    unfolding e by (rule reraise_cases)
qed

lemma do_op_returned:
  "returned (fst (do_op E x (self, s))) =
     (\<not> conversion_fails E x \<and> lib self \<noteq> None
      \<and> list_all ev_ok (new_events s (snd (snd (do_op E x (self, s))))))"
  by (cases x)
     (auto simp: method_defs new_events_def split: prod.splits sum.splits option.splits)

lemma init_reraised:
  "fst (init E s) = Inl e \<Longrightarrow>
   (\<exists>e0. e = reraise ''Failed to load spectrometer DLL: '' e0)
   \<or> (\<exists>e0. e = reraise ''Failed to initialize spectrometer: '' e0)"
  by (auto simp: init_eq split: prod.splits sum.splits option.splits)

lemma init_failure:
  assumes "fst (init E s) = Inl e"
  shows "(\<exists>m. e = Exc RuntimeError (''Failed to load spectrometer DLL: '' @ m))
   \<or> (\<exists>m. e = Exc RuntimeError (''Failed to initialize spectrometer: '' @ m))
   \<or> \<not> is_Exception e"
proof -
  from init_reraised [OF assms] consider
    e0 where "e = reraise ''Failed to load spectrometer DLL: '' e0"
    | e0 where "e = reraise ''Failed to initialize spectrometer: '' e0"
    by blast
  then show ?thesis
  proof cases
    case 1
    from reraise_cases [of "''Failed to load spectrometer DLL: ''" e0]
    show ?thesis unfolding 1 by blast
  next
    case 2
    from reraise_cases [of "''Failed to initialize spectrometer: ''" e0]
    show ?thesis unfolding 2 by blast
  qed
qed

text \<open>What each operation returns or raises, from the answers of the environment; the
  handler is written out.\<close>

lemma set_integration_time_result:
  "fst (set_integration_time E t (self, s)) =
     (case c_double E t of
        Inl e \<Rightarrow> Inl (if is_Exception e then Exc RuntimeError (''Failed to set integration time: '' @ str e) else e)
      | Inr d \<Rightarrow>
          (case lib self of
             None \<Rightarrow>
               Inl (Exc RuntimeError (''Failed to set integration time: '' @ [quote] @ ''NoneType'' @ [quote] @
                 '' object has no attribute '' @ [quote] @ ''tlccs_setIntegrationTime'' @ [quote]))
           | Some l \<Rightarrow>
               (case fst (foreign E ''tlccs_setIntegrationTime''
                            [C_int (ccs_handle self), C_double d] (ext s)) of
                  Inl e \<Rightarrow> Inl (if is_Exception e then Exc RuntimeError (''Failed to set integration time: '' @ str e) else e)
                | Inr r \<Rightarrow> Inr PyNone)))"
proof (cases "c_double E t")
  case (Inl e)
  then show ?thesis
    by (simp add: set_integration_time_conv [OF Inl] reraise_def)
next
  case (Inr d)
  show ?thesis
  proof (cases "lib self")
    case None
    then show ?thesis
      by (simp add: set_integration_time_None [OF None Inr] Inr reraise_def)
  next
    case (Some l)
    then show ?thesis
      by (simp add: set_integration_time_Some [OF Some Inr] Inr reraise_def
          split: prod.splits sum.splits)
  qed
qed

lemma start_scan_result:
  "fst (start_scan E (self, s)) =
     (case lib self of
        None \<Rightarrow>
          Inl (Exc RuntimeError (''Failed to start scan: '' @ [quote] @ ''NoneType'' @ [quote] @
                 '' object has no attribute '' @ [quote] @ ''tlccs_startScan'' @ [quote]))
      | Some l \<Rightarrow>
          (case fst (foreign E ''tlccs_startScan'' [C_int (ccs_handle self)] (ext s)) of
             Inl e \<Rightarrow> Inl (if is_Exception e then Exc RuntimeError (''Failed to start scan: '' @ str e) else e)
           | Inr r \<Rightarrow> Inr PyNone))"
proof (cases "lib self")
  case None
  then show ?thesis
    by (simp add: start_scan_None reraise_def)
next
  case (Some l)
  then show ?thesis
    by (simp add: start_scan_Some [OF Some] reraise_def split: prod.splits sum.splits)
qed

lemma close_result:
  "fst (close E (self, s)) =
     (case lib self of
        None \<Rightarrow>
          Inl (Exc RuntimeError (''Failed to close spectrometer: '' @ [quote] @ ''NoneType'' @ [quote] @
                 '' object has no attribute '' @ [quote] @ ''tlccs_close'' @ [quote]))
      | Some l \<Rightarrow>
          (case fst (foreign E ''tlccs_close'' [C_int (ccs_handle self)] (ext s)) of
             Inl e \<Rightarrow> Inl (if is_Exception e then Exc RuntimeError (''Failed to close spectrometer: '' @ str e) else e)
           | Inr r \<Rightarrow> Inr PyNone))"
proof (cases "lib self")
  case None
  then show ?thesis
    by (simp add: close_None reraise_def)
next
  case (Some l)
  then show ?thesis
    by (simp add: close_Some [OF Some] reraise_def split: prod.splits sum.splits)
qed

lemma get_scan_data_result:
  "fst (get_scan_data E (self, s)) =
     (case lib self of
        None \<Rightarrow>
          Inl (Exc RuntimeError (''Failed to retrieve scan data: '' @ [quote] @ ''NoneType'' @ [quote] @
                 '' object has no attribute '' @ [quote] @ ''tlccs_getWavelengthData'' @ [quote]))
      | Some l \<Rightarrow>
          (case foreign E ''tlccs_getWavelengthData''
                  [C_int (ccs_handle self), PyIntArg 0, ByRef_array (length (heap s)),
                   C_void_p None, C_void_p None] (ext s) of
             (Inl e, w1) \<Rightarrow> Inl (if is_Exception e then Exc RuntimeError (''Failed to retrieve scan data: '' @ str e) else e)
           | (Inr r1, w1) \<Rightarrow>
               (case fst (foreign E ''tlccs_getScanData''
                            [C_int (ccs_handle self), ByRef_array (Suc (length (heap s)))] w1) of
                  Inl e \<Rightarrow> Inl (if is_Exception e then Exc RuntimeError (''Failed to retrieve scan data: '' @ str e) else e)
                | Inr r2 \<Rightarrow>
                    Inr (PyTuple [PyArray (length (heap s)), PyArray (Suc (length (heap s)))]))))"
proof (cases "lib self")
  case None
  then show ?thesis
    by (simp add: get_scan_data_None reraise_def)
next
  case (Some l)
  then show ?thesis
    by (simp add: get_scan_data_Some [OF Some] reraise_def split: prod.splits sum.splits)
qed

lemma init_result:
  "fst (init E s) =
     (case os_chdir E VISA_BIN (ext s) of
        (Some e, w1) \<Rightarrow> Inl (if is_Exception e then Exc RuntimeError (''Failed to load spectrometer DLL: '' @ str e) else e)
      | (None, w1) \<Rightarrow>
          (case LoadLibrary E DLL_NAME w1 of
             (Some e, w2) \<Rightarrow> Inl (if is_Exception e then Exc RuntimeError (''Failed to load spectrometer DLL: '' @ str e) else e)
           | (None, w2) \<Rightarrow>
               (case fst (foreign E ''tlccs_init''
                            [BytesArg ''USB0::0x1313::0x8089::M00912624::RAW'', PyIntArg 1,
                             PyIntArg 1, ByRef_int 0] w2) of
                  Inl e \<Rightarrow> Inl (if is_Exception e then Exc RuntimeError (''Failed to initialize spectrometer: '' @ str e) else e)
                | Inr r \<Rightarrow> Inr PyNone)))"
proof -
  obtain c w1 where c: "os_chdir E VISA_BIN (ext s) = (c, w1)"
    by (cases "os_chdir E VISA_BIN (ext s)")
  obtain l w2 where l: "LoadLibrary E DLL_NAME w1 = (l, w2)"
    by (cases "LoadLibrary E DLL_NAME w1")
  obtain r w3 where r: "foreign E ''tlccs_init''
      [BytesArg ''USB0::0x1313::0x8089::M00912624::RAW'', PyIntArg 1, PyIntArg 1, ByRef_int 0] w2 =
      (r, w3)"
    by (cases "foreign E ''tlccs_init''
      [BytesArg ''USB0::0x1313::0x8089::M00912624::RAW'', PyIntArg 1, PyIntArg 1, ByRef_int 0] w2")
  show ?thesis
    by (cases c; cases l; cases r) (simp_all add: init_eq c l r reraise_def RESOURCE_def)
qed

lemma sim_int_argument:
  "c_double sim_env (PyInt 3) = Inr 0x4008000000000000"
  by (simp add: c_double_def sim_env_def double_of_int_def Let_def bit_length.simps)

lemma disj_notD: "P \<or> \<not> Q \<Longrightarrow> Q \<Longrightarrow> P"
  by blast

lemma sim_start_scan_oserror:
  "start_scan oserror_env (sim_obj, sim_state) =
     (Inl (Exc RuntimeError (''Failed to start scan: '' @ ''access violation'')), sim_obj,
      sim_state\<lparr>trace := trace sim_state @ [Call ''tlccs_startScan'' [C_int 7] False],
        ext := 1\<rparr>)"
  by (simp add: start_scan_Some [OF sim_fields(1)] sim_fields oserror_env_def sim_env_def
      reraise_def)

section \<open>The claims\<close>

subsection \<open>C1: which foreign function each operation calls, and what comes back\<close>

text \<open>
  C1, as the code has it. On an object whose library is loaded, each public operation
  calls the expected vendor function with the expected marshalled arguments:
  \<open>set_integration_time\<close> passes the handle and the float as a \<open>c_double\<close> to
  \<open>tlccs_setIntegrationTime\<close>, \<open>start_scan\<close> passes the handle to \<open>tlccs_startScan\<close>,
  \<open>close\<close> passes it to \<open>tlccs_close\<close>, \<open>get_scan_data\<close> calls \<open>tlccs_getWavelengthData\<close>
  and then \<open>tlccs_getScanData\<close>, and the constructor changes directory, loads the library
  and calls \<open>tlccs_init\<close>. The value the vendor function returns is dropped:
  \<open>set_integration_time\<close>, \<open>start_scan\<close>, \<open>close\<close> and the constructor return \<open>None\<close>, and
  \<open>get_scan_data\<close> returns the pair of its two arrays. An exception of a call reaches
  the caller as the handler re-raises it: a \<open>RuntimeError\<close> whose message is the
  operation's prefix followed by \<open>str(e)\<close> when the exception is an \<open>Exception\<close>, the
  exception itself when it is not. The first five conjuncts give the calls, the next two
  the whole outcome of \<open>get_scan_data\<close> and of the constructor, the last the handler.
\<close>

theorem wrapper_calls_expected_functions:
  assumes "lib self = Some l"
  shows
    "set_integration_time E (PyFloat d) (self, s) =
       (case foreign E ''tlccs_setIntegrationTime'' [C_int (ccs_handle self), C_double d] (ext s) of
          (r, w) \<Rightarrow>
            ((case r of Inl e \<Rightarrow> Inl (reraise ''Failed to set integration time: '' e)
                      | Inr ret \<Rightarrow> Inr PyNone),
             self,
             s\<lparr>trace := trace s @ [Call ''tlccs_setIntegrationTime''
                                      [C_int (ccs_handle self), C_double d] (returned r)],
               ext := w\<rparr>))
     \<and> start_scan E (self, s) =
       (case foreign E ''tlccs_startScan'' [C_int (ccs_handle self)] (ext s) of
          (r, w) \<Rightarrow>
            ((case r of Inl e \<Rightarrow> Inl (reraise ''Failed to start scan: '' e)
                      | Inr ret \<Rightarrow> Inr PyNone),
             self,
             s\<lparr>trace := trace s @ [Call ''tlccs_startScan'' [C_int (ccs_handle self)] (returned r)],
               ext := w\<rparr>))
     \<and> close E (self, s) =
       (case foreign E ''tlccs_close'' [C_int (ccs_handle self)] (ext s) of
          (r, w) \<Rightarrow>
            ((case r of Inl e \<Rightarrow> Inl (reraise ''Failed to close spectrometer: '' e)
                      | Inr ret \<Rightarrow> Inr PyNone),
             self,
             s\<lparr>trace := trace s @ [Call ''tlccs_close'' [C_int (ccs_handle self)] (returned r)],
               ext := w\<rparr>))
     \<and> new_events s (snd (snd (get_scan_data E (self, s)))) =
       (case fst (foreign E ''tlccs_getWavelengthData''
                    [C_int (ccs_handle self), PyIntArg 0, ByRef_array (length (heap s)),
                     C_void_p None, C_void_p None] (ext s)) of
          Inl e \<Rightarrow>
            [Call ''tlccs_getWavelengthData''
               [C_int (ccs_handle self), PyIntArg 0, ByRef_array (length (heap s)),
                C_void_p None, C_void_p None] False]
        | Inr r1 \<Rightarrow>
            [Call ''tlccs_getWavelengthData''
               [C_int (ccs_handle self), PyIntArg 0, ByRef_array (length (heap s)),
                C_void_p None, C_void_p None] True,
             Call ''tlccs_getScanData''
               [C_int (ccs_handle self), ByRef_array (Suc (length (heap s)))]
               (returned (fst (get_scan_data E (self, s))))])
     \<and> new_events s (snd (snd (init E s))) =
       (case fst (os_chdir E VISA_BIN (ext s)) of
          Some e \<Rightarrow> [Chdir VISA_BIN False]
        | None \<Rightarrow>
            (case fst (LoadLibrary E DLL_NAME (snd (os_chdir E VISA_BIN (ext s)))) of
               Some e \<Rightarrow> [Chdir VISA_BIN True, Load DLL_NAME False]
             | None \<Rightarrow>
                 [Chdir VISA_BIN True, Load DLL_NAME True,
                  Call ''tlccs_init''
                    [BytesArg ''USB0::0x1313::0x8089::M00912624::RAW'', PyIntArg 1, PyIntArg 1,
                     ByRef_int 0]
                    (returned (fst (init E s)))]))
     \<and> get_scan_data E (self, s) =
     (case foreign E ''tlccs_getWavelengthData''
             [C_int (ccs_handle self), PyIntArg 0, ByRef_array (length (heap s)),
              C_void_p None, C_void_p None] (ext s) of
        (Inl e, w1) \<Rightarrow>
          (Inl (reraise ''Failed to retrieve scan data: '' e), self,
           s\<lparr>heap := heap s @ [replicate NUM_PIXELS 0],
             trace := trace s @ [Call ''tlccs_getWavelengthData''
               [C_int (ccs_handle self), PyIntArg 0, ByRef_array (length (heap s)),
                C_void_p None, C_void_p None] False],
             ext := w1\<rparr>)
      | (Inr r1, w1) \<Rightarrow>
          (case foreign E ''tlccs_getScanData''
                  [C_int (ccs_handle self), ByRef_array (Suc (length (heap s)))] w1 of
             (Inl e, w2) \<Rightarrow>
               (Inl (reraise ''Failed to retrieve scan data: '' e), self,
                s\<lparr>heap := heap s @ [apply_writes (arr_out r1) (replicate NUM_PIXELS 0),
                                      replicate NUM_PIXELS 0],
                  trace := trace s @
                    [Call ''tlccs_getWavelengthData''
                       [C_int (ccs_handle self), PyIntArg 0, ByRef_array (length (heap s)),
                        C_void_p None, C_void_p None] True,
                     Call ''tlccs_getScanData''
                       [C_int (ccs_handle self), ByRef_array (Suc (length (heap s)))] False],
                  ext := w2\<rparr>)
           | (Inr r2, w2) \<Rightarrow>
               (Inr (PyTuple [PyArray (length (heap s)), PyArray (Suc (length (heap s)))]), self,
                s\<lparr>heap := heap s @ [apply_writes (arr_out r1) (replicate NUM_PIXELS 0),
                                      apply_writes (arr_out r2) (replicate NUM_PIXELS 0)],
                  trace := trace s @
                    [Call ''tlccs_getWavelengthData''
                       [C_int (ccs_handle self), PyIntArg 0, ByRef_array (length (heap s)),
                        C_void_p None, C_void_p None] True,
                     Call ''tlccs_getScanData''
                       [C_int (ccs_handle self), ByRef_array (Suc (length (heap s)))] True],
                  ext := w2\<rparr>)))
     \<and> init E s =
     (case os_chdir E VISA_BIN (ext s) of
        (Some e, w1) \<Rightarrow>
          (Inl (reraise ''Failed to load spectrometer DLL: '' e), \<lparr>lib = None, ccs_handle = 0\<rparr>,
           s\<lparr>trace := trace s @ [Chdir VISA_BIN False], ext := w1\<rparr>)
      | (None, w1) \<Rightarrow>
          (case LoadLibrary E DLL_NAME w1 of
             (Some e, w2) \<Rightarrow>
               (Inl (reraise ''Failed to load spectrometer DLL: '' e),
                \<lparr>lib = None, ccs_handle = 0\<rparr>,
                s\<lparr>cwd := VISA_BIN,
                  trace := trace s @ [Chdir VISA_BIN True, Load DLL_NAME False], ext := w2\<rparr>)
           | (None, w2) \<Rightarrow>
               (case foreign E ''tlccs_init''
                       [BytesArg RESOURCE, PyIntArg 1, PyIntArg 1, ByRef_int 0] w2 of
                  (Inl e, w3) \<Rightarrow>
                    (Inl (reraise ''Failed to initialize spectrometer: '' e),
                     \<lparr>lib = Some DLL_NAME, ccs_handle = 0\<rparr>,
                     s\<lparr>cwd := VISA_BIN,
                       trace := trace s @ [Chdir VISA_BIN True, Load DLL_NAME True,
                         Call ''tlccs_init''
                           [BytesArg RESOURCE, PyIntArg 1, PyIntArg 1, ByRef_int 0] False],
                       ext := w3\<rparr>)
                | (Inr r, w3) \<Rightarrow>
                    (Inr PyNone,
                     \<lparr>lib = Some DLL_NAME,
                      ccs_handle = (case int_out r of None \<Rightarrow> 0 | Some h \<Rightarrow> h)\<rparr>,
                     s\<lparr>cwd := VISA_BIN,
                       trace := trace s @ [Chdir VISA_BIN True, Load DLL_NAME True,
                         Call ''tlccs_init''
                           [BytesArg RESOURCE, PyIntArg 1, PyIntArg 1, ByRef_int 0] True],
                       ext := w3\<rparr>))))
     \<and> reraise p e = (if is_Exception e then Exc RuntimeError (p @ str e) else e)"
proof -
  have conv: "c_double E (PyFloat d) = Inr d"
    by (simp add: c_double_def)
  note 1 = set_integration_time_Some [OF assms conv]
  note 2 = start_scan_Some [OF assms]
  note 3 = close_Some [OF assms]
  note 4 = get_scan_data_events [OF assms]
  note 6 = get_scan_data_Some [OF assms]
  show ?thesis
    by (intro conjI 1 2 3 4 init_events 6 init_eq reraise_def)
qed

theorem wrapper_calls_expected_functions_witness:
  "lib sim_obj = Some DLL_NAME
   \<and> set_integration_time sim_env (PyFloat 3) (sim_obj, sim_state) =
       (Inr PyNone, sim_obj,
        sim_state\<lparr>trace := trace sim_state @
          [Call ''tlccs_setIntegrationTime'' [C_int 7, C_double 3] True], ext := 2\<rparr>)
   \<and> start_scan sim_env (sim_obj, sim_state) =
       (Inr PyNone, sim_obj,
        sim_state\<lparr>trace := trace sim_state @ [Call ''tlccs_startScan'' [C_int 7] True], ext := 2\<rparr>)"
proof -
  have h: "lib sim_obj = Some DLL_NAME"
    by (simp add: sim_fields)
  note t = wrapper_calls_expected_functions [OF h, where E = sim_env and d = 3 and s = sim_state]
  note t1 = t [THEN conjunct1] and t2 = t [THEN conjunct2, THEN conjunct1]
  show ?thesis
    using h t1 t2 by (simp add: sim_fields sim_env_def)
qed

text \<open>
  C1 as the spec words it fails: in the simulated environment \<open>tlccs_startScan\<close> returns 5
  and \<open>start_scan\<close> returns \<open>None\<close>; where the call raises an \<open>OSError\<close>, \<open>start_scan\<close>
  raises a \<open>RuntimeError\<close> with another message.
\<close>

theorem return_value_not_propagated:
  "fst (foreign sim_env ''tlccs_startScan'' [C_int 7] 1) =
     Inr \<lparr>retval = 5, int_out = Some 7, arr_out = [(0, 2)]\<rparr>
   \<and> start_scan sim_env (sim_obj, sim_state\<lparr>trace := []\<rparr>) =
       (Inr PyNone, sim_obj,
        sim_state\<lparr>trace := [Call ''tlccs_startScan'' [C_int 7] True], ext := 2\<rparr>)
   \<and> fst (foreign oserror_env ''tlccs_startScan'' [C_int 7] 1) =
       Inl (Exc OSError ''access violation'')
   \<and> fst (start_scan oserror_env (sim_obj, sim_state)) =
       Inl (Exc RuntimeError ''Failed to start scan: access violation'')"
proof -
  have h: "lib sim_obj = Some DLL_NAME"
    by (simp add: sim_fields)
  show ?thesis
    by (simp add: start_scan_Some [OF h] sim_fields sim_env_def oserror_env_def reraise_def)
qed

subsection \<open>C3: the two buffers of a scan\<close>

text \<open>
  C3. When \<open>get_scan_data\<close> returns, both vendor calls returned, and the result is the
  pair of the wavelength array and the intensity array, in this order. Each array holds
  3648 doubles, and each cell holds the last value the vendor call stored there
  (\<open>tlccs_getWavelengthData\<close> for the first array, \<open>tlccs_getScanData\<close> for the second), or
  the 0 of the allocation when the call stored nothing there: the wrapper changes no cell.
\<close>

theorem get_scan_data_returns_buffers_as_written:
  assumes "fst (get_scan_data E (self, s)) = Inr v"
  shows "\<exists>r1 w1 r2 w2.
     foreign E ''tlccs_getWavelengthData''
       [C_int (ccs_handle self), PyIntArg 0, ByRef_array (length (heap s)),
        C_void_p None, C_void_p None] (ext s) = (Inr r1, w1)
     \<and> foreign E ''tlccs_getScanData''
         [C_int (ccs_handle self), ByRef_array (Suc (length (heap s)))] w1 = (Inr r2, w2)
     \<and> v = PyTuple [PyArray (length (heap s)), PyArray (Suc (length (heap s)))]
     \<and> length (heap (snd (snd (get_scan_data E (self, s)))) ! length (heap s)) = 3648
     \<and> length (heap (snd (snd (get_scan_data E (self, s)))) ! Suc (length (heap s))) = 3648
     \<and> (\<forall>i<3648. heap (snd (snd (get_scan_data E (self, s)))) ! length (heap s) ! i =
           (case last_write (arr_out r1) i of Some x \<Rightarrow> x | None \<Rightarrow> 0))
     \<and> (\<forall>i<3648. heap (snd (snd (get_scan_data E (self, s)))) ! Suc (length (heap s)) ! i =
           (case last_write (arr_out r2) i of Some x \<Rightarrow> x | None \<Rightarrow> 0))"
proof -
  from get_scan_data_success [OF assms] obtain r1 w1 r2 w2 where
    c1: "foreign E ''tlccs_getWavelengthData''
       [C_int (ccs_handle self), PyIntArg 0, ByRef_array (length (heap s)),
        C_void_p None, C_void_p None] (ext s) = (Inr r1, w1)"
    and c2: "foreign E ''tlccs_getScanData''
         [C_int (ccs_handle self), ByRef_array (Suc (length (heap s)))] w1 = (Inr r2, w2)"
    and v: "v = PyTuple [PyArray (length (heap s)), PyArray (Suc (length (heap s)))]"
    and h: "heap (snd (snd (get_scan_data E (self, s)))) =
         heap s @ [apply_writes (arr_out r1) (replicate NUM_PIXELS 0),
                   apply_writes (arr_out r2) (replicate NUM_PIXELS 0)]"
    by blast
  have n: "NUM_PIXELS = 3648"
    by (simp add: NUM_PIXELS_def)
  have a: "heap (snd (snd (get_scan_data E (self, s)))) ! length (heap s) =
      apply_writes (arr_out r1) (replicate NUM_PIXELS 0)"
    by (simp add: h)
  have b: "heap (snd (snd (get_scan_data E (self, s)))) ! Suc (length (heap s)) =
      apply_writes (arr_out r2) (replicate NUM_PIXELS 0)"
    by (simp add: h nth_append)
  have la: "length (apply_writes (arr_out r1) (replicate NUM_PIXELS 0)) = 3648"
    and lb: "length (apply_writes (arr_out r2) (replicate NUM_PIXELS 0)) = 3648"
    by (simp_all add: length_apply_writes n)
  have ea: "\<forall>i<3648. apply_writes (arr_out r1) (replicate NUM_PIXELS 0) ! i =
      (case last_write (arr_out r1) i of Some x \<Rightarrow> x | None \<Rightarrow> 0)"
    and eb: "\<forall>i<3648. apply_writes (arr_out r2) (replicate NUM_PIXELS 0) ! i =
      (case last_write (arr_out r2) i of Some x \<Rightarrow> x | None \<Rightarrow> 0)"
    by (simp_all add: nth_apply_writes n split: option.splits)
  show ?thesis
    unfolding a b using c1 c2 v la lb ea eb by blast
qed

theorem get_scan_data_returns_buffers_as_written_witness:
  "fst (get_scan_data sim_env (sim_obj, sim_state)) = Inr (PyTuple [PyArray 0, PyArray 1])
   \<and> length (heap (snd (snd (get_scan_data sim_env (sim_obj, sim_state)))) ! 0) = 3648
   \<and> length (heap (snd (snd (get_scan_data sim_env (sim_obj, sim_state)))) ! 1) = 3648
   \<and> heap (snd (snd (get_scan_data sim_env (sim_obj, sim_state)))) ! 0 ! 0 = 2
   \<and> heap (snd (snd (get_scan_data sim_env (sim_obj, sim_state)))) ! 1 ! 0 = 3
   \<and> heap (snd (snd (get_scan_data sim_env (sim_obj, sim_state)))) ! 1 ! 5 = 0"
proof -
  have h: "fst (get_scan_data sim_env (sim_obj, sim_state)) = Inr (PyTuple [PyArray 0, PyArray 1])"
    by (simp add: sim_scan)
  from get_scan_data_returns_buffers_as_written [OF h] obtain r1 w1 r2 w2 where
    c1: "foreign sim_env ''tlccs_getWavelengthData''
       [C_int (ccs_handle sim_obj), PyIntArg 0, ByRef_array (length (heap sim_state)),
        C_void_p None, C_void_p None] (ext sim_state) = (Inr r1, w1)"
    and c2: "foreign sim_env ''tlccs_getScanData''
         [C_int (ccs_handle sim_obj), ByRef_array (Suc (length (heap sim_state)))] w1 = (Inr r2, w2)"
    and l: "length (heap (snd (snd (get_scan_data sim_env (sim_obj, sim_state)))) ! length (heap sim_state)) = 3648"
      "length (heap (snd (snd (get_scan_data sim_env (sim_obj, sim_state)))) ! Suc (length (heap sim_state))) = 3648"
    and e1: "\<forall>i<3648. heap (snd (snd (get_scan_data sim_env (sim_obj, sim_state)))) ! length (heap sim_state) ! i =
           (case last_write (arr_out r1) i of Some x \<Rightarrow> x | None \<Rightarrow> 0)"
    and e2: "\<forall>i<3648. heap (snd (snd (get_scan_data sim_env (sim_obj, sim_state)))) ! Suc (length (heap sim_state)) ! i =
           (case last_write (arr_out r2) i of Some x \<Rightarrow> x | None \<Rightarrow> 0)"
    by blast
  from c1 have r1: "arr_out r1 = [(0, 2)]" and w1: "w1 = 2"
    by (auto simp: sim_env_def sim_fields)
  from c2 have r2: "arr_out r2 = [(0, 3)]"
    by (auto simp: sim_env_def w1)
  from e1 have "heap (snd (snd (get_scan_data sim_env (sim_obj, sim_state)))) ! 0 ! 0 = 2"
    by (simp add: r1 sim_fields)
  moreover from e2 have "heap (snd (snd (get_scan_data sim_env (sim_obj, sim_state)))) ! 1 ! 0 = 3"
    "heap (snd (snd (get_scan_data sim_env (sim_obj, sim_state)))) ! 1 ! 5 = 0"
    by (simp_all add: r2 sim_fields)
  ultimately show ?thesis
    using h l by (simp add: sim_fields)
qed

subsection \<open>C8: the arguments of \<open>tlccs_init\<close>\<close>

text \<open>
  C8. The constructor takes no argument. Whenever it reaches \<open>tlccs_init\<close> (the change of
  directory and the load returned), it passes the resource string
  \<open>USB0::0x1313::0x8089::M00912624::RAW\<close>, the flags 1 and 1, and a pointer to the handle,
  which holds 0: the same argument list in every environment and every state. No later
  method calls \<open>tlccs_init\<close>, so these are the only arguments it ever gets in a session.
\<close>

theorem init_arguments_fixed:
  "args_of ''tlccs_init'' (new_events s (snd (snd (init E s)))) =
     (if fst (os_chdir E VISA_BIN (ext s)) = None
         \<and> fst (LoadLibrary E DLL_NAME (snd (os_chdir E VISA_BIN (ext s)))) = None
      then [[BytesArg ''USB0::0x1313::0x8089::M00912624::RAW'', PyIntArg 1, PyIntArg 1, ByRef_int 0]]
      else [])
   \<and> set (args_of ''tlccs_init'' (new_events s (session E xs s))) \<subseteq>
       {[BytesArg ''USB0::0x1313::0x8089::M00912624::RAW'', PyIntArg 1, PyIntArg 1, ByRef_int 0]}"
proof -
  have a: "args_of ''tlccs_init'' (new_events s (snd (snd (init E s)))) =
     (if fst (os_chdir E VISA_BIN (ext s)) = None
         \<and> fst (LoadLibrary E DLL_NAME (snd (os_chdir E VISA_BIN (ext s)))) = None
      then [[BytesArg ''USB0::0x1313::0x8089::M00912624::RAW'', PyIntArg 1, PyIntArg 1, ByRef_int 0]]
      else [])"
    by (auto simp: init_events split: option.splits)
  obtain es where es: "new_events s (session E xs s) = new_events s (snd (snd (init E s))) @ es"
    "set (called es) \<subseteq>
       {''tlccs_setIntegrationTime'', ''tlccs_startScan'', ''tlccs_getWavelengthData'',
        ''tlccs_getScanData'', ''tlccs_close''}"
    using session_events [of s E xs] by blast
  have "''tlccs_init'' \<notin> set (called es)"
    using es(2) by auto
  then have "args_of ''tlccs_init'' es = []"
    by (induction es rule: called.induct) auto
  with a es(1) show ?thesis
    by (auto simp: args_of_append)
qed

theorem init_arguments_fixed_witness:
  "args_of ''tlccs_init'' (new_events start_state (snd (snd (init sim_env start_state)))) =
     [[BytesArg ''USB0::0x1313::0x8089::M00912624::RAW'', PyIntArg 1, PyIntArg 1, ByRef_int 0]]"
  using init_arguments_fixed [of start_state sim_env "[]"]
  by (simp add: sim_env_def)

subsection \<open>C9: the fields after construction\<close>

text \<open>
  C9. Each of \<open>set_integration_time\<close>, \<open>start_scan\<close>, \<open>get_scan_data\<close> and \<open>close\<close>, whether
  it returns or raises, leaves the object as it was: \<open>self.lib\<close> and \<open>self.ccs_handle\<close> are
  unchanged, and \<open>close\<close> in particular keeps the stored handle.
\<close>

theorem operations_leave_fields_unchanged:
  "fst (snd (set_integration_time E t (self, s))) = self
   \<and> fst (snd (start_scan E (self, s))) = self
   \<and> fst (snd (get_scan_data E (self, s))) = self
   \<and> fst (snd (close E (self, s))) = self
   \<and> lib (fst (snd (close E (self, s)))) = lib self
   \<and> ccs_handle (fst (snd (close E (self, s)))) = ccs_handle self"
  using do_op_self [of E "SetIntegrationTime t" self s] do_op_self [of E StartScan self s]
    do_op_self [of E GetScanData self s] do_op_self [of E Close self s]
  by simp

theorem operations_leave_fields_unchanged_witness:
  "fst (snd (close sim_env (sim_obj, sim_state))) = sim_obj
   \<and> ccs_handle (fst (snd (close sim_env (sim_obj, sim_state)))) = 7"
  using operations_leave_fields_unchanged [of sim_env PyNone sim_obj sim_state]
  by (simp add: sim_fields)

subsection \<open>C10: the working directory\<close>

text \<open>
  C10. The first external call of every construction is \<open>os.chdir\<close> to the fixed directory
  \<open>VISA_BIN\<close> (the \<open>Win64/Bin\<close> directory of the VISA installation under
  \<open>Program Files\<close>), before the library is loaded. When it
  returns, the working directory of the process is that directory, and it still is at
  the end of the session, whatever the session does and whether or not the construction
  went on to succeed: nothing calls \<open>os.chdir\<close> again.
\<close>

theorem init_changes_working_directory:
  "(\<exists>es. new_events s (session E xs s) =
       Chdir VISA_BIN (fst (os_chdir E VISA_BIN (ext s)) = None) # es
       \<and> (\<forall>e\<in>set es. ev_name e \<noteq> ''os.chdir''))
   \<and> cwd (session E xs s) =
       (if fst (os_chdir E VISA_BIN (ext s)) = None then VISA_BIN else cwd s)"
proof -
  obtain es where es: "new_events s (session E xs s) = new_events s (snd (snd (init E s))) @ es"
    "called es = map ev_name es"
    "set (called es) \<subseteq>
       {''tlccs_setIntegrationTime'', ''tlccs_startScan'', ''tlccs_getWavelengthData'',
        ''tlccs_getScanData'', ''tlccs_close''}"
    using session_events [of s E xs] by blast
  from es(2) es(3) have n: "\<forall>e\<in>set es. ev_name e \<noteq> ''os.chdir''"
    by auto
  have "\<exists>js. new_events s (snd (snd (init E s))) =
      Chdir VISA_BIN (fst (os_chdir E VISA_BIN (ext s)) = None) # js
      \<and> (\<forall>e\<in>set js. ev_name e \<noteq> ''os.chdir'')"
    by (cases "fst (os_chdir E VISA_BIN (ext s))";
        cases "fst (LoadLibrary E DLL_NAME (snd (os_chdir E VISA_BIN (ext s))))")
       (simp_all add: init_events)
  then obtain js where i: "new_events s (snd (snd (init E s))) =
      Chdir VISA_BIN (fst (os_chdir E VISA_BIN (ext s)) = None) # js"
    "\<forall>e\<in>set js. ev_name e \<noteq> ''os.chdir''"
    by blast
  have "new_events s (session E xs s) =
      Chdir VISA_BIN (fst (os_chdir E VISA_BIN (ext s)) = None) # (js @ es)"
    using es(1) i(1) by simp
  moreover have "\<forall>e\<in>set (js @ es). ev_name e \<noteq> ''os.chdir''"
    using n i(2) by auto
  ultimately have "\<exists>es. new_events s (session E xs s) =
       Chdir VISA_BIN (fst (os_chdir E VISA_BIN (ext s)) = None) # es
       \<and> (\<forall>e\<in>set es. ev_name e \<noteq> ''os.chdir'')"
    by blast
  then show ?thesis
    by (simp add: session_cwd init_cwd)
qed

theorem init_changes_working_directory_witness:
  "cwd start_state = ''C:''
   \<and> cwd (session sim_env [StartScan, Close] start_state) = VISA_BIN
   \<and> VISA_BIN \<noteq> ''C:''"
  using init_changes_working_directory [of start_state sim_env "[StartScan, Close]"]
  by (simp add: sim_env_def start_state_def VISA_BIN_def)

subsection \<open>C5: load the library, then call it\<close>



subsection \<open>C7: no retry, no state kept\<close>

text \<open>
  C7. In one invocation of a public method, and in one construction, no external
  function is called twice, and an external call that raised is the last call of the
  invocation: nothing is retried. The invocation only appends to the trace, and a method
  hands back the object it was given: the wrapper keeps nothing from one call to the next
  beyond the two fields \<open>lib\<close> and \<open>ccs_handle\<close> that the construction set.
\<close>

theorem no_retry_no_persisted_state:
  "distinct (map ev_name (new_events s (snd (snd (do_op E x (self, s))))))
   \<and> stops_at_failure (new_events s (snd (snd (do_op E x (self, s)))))
   \<and> trace (snd (snd (do_op E x (self, s)))) =
       trace s @ new_events s (snd (snd (do_op E x (self, s))))
   \<and> fst (snd (do_op E x (self, s))) = self
   \<and> distinct (map ev_name (new_events s (snd (snd (init E s)))))
   \<and> stops_at_failure (new_events s (snd (snd (init E s))))
   \<and> trace (snd (snd (init E s))) = trace s @ new_events s (snd (snd (init E s)))"
proof -
  have 1: "distinct (map ev_name (new_events s (snd (snd (do_op E x (self, s))))))"
    using do_op_events [of s E x self] by auto
  have 2: "stops_at_failure (new_events s (snd (snd (do_op E x (self, s)))))"
    using do_op_events [of s E x self] by auto
  have 5: "distinct (map ev_name (new_events s (snd (snd (init E s)))))"
    by (simp add: init_events split: option.splits)
  have 6: "stops_at_failure (new_events s (snd (snd (init E s))))"
    by (simp add: init_events split: option.splits)
  show ?thesis
    by (intro conjI 1 2 do_op_trace do_op_self 5 6 init_trace)
qed

theorem no_retry_no_persisted_state_witness:
  "new_events sim_state (snd (snd (do_op oserror_env GetScanData (sim_obj, sim_state)))) =
     [Call ''tlccs_getWavelengthData''
        [C_int 7, PyIntArg 0, ByRef_array 0, C_void_p None, C_void_p None] False]
   \<and> distinct (map ev_name
        (new_events sim_state (snd (snd (do_op oserror_env GetScanData (sim_obj, sim_state))))))
   \<and> fst (snd (do_op oserror_env GetScanData (sim_obj, sim_state))) = sim_obj"
  using no_retry_no_persisted_state [of sim_state oserror_env GetScanData sim_obj]
    get_scan_data_events [OF sim_fields(1), of sim_state oserror_env]
  by (simp add: sim_fields oserror_env_def sim_env_def)

subsection \<open>C4: the vendor functions the binding calls\<close>

text \<open>
  C4, as the code has it. The binding has five public operations: the construction,
  \<open>set_integration_time\<close>, \<open>start_scan\<close>, \<open>get_scan_data\<close> and \<open>close\<close>. The construction
  calls no vendor function but \<open>tlccs_init\<close>, \<open>set_integration_time\<close> none but
  \<open>tlccs_setIntegrationTime\<close>, \<open>start_scan\<close> none but \<open>tlccs_startScan\<close>, \<open>get_scan_data\<close> none
  but \<open>tlccs_getWavelengthData\<close> and \<open>tlccs_getScanData\<close>, and \<open>close\<close> none but
  \<open>tlccs_close\<close>; so the vendor functions called in any session are among these six.
\<close>

theorem vendor_functions_called:
  "set (called (new_events s (snd (snd (init E s))))) \<subseteq> {''tlccs_init''}
   \<and> set (called (new_events s (snd (snd (set_integration_time E t (self, s)))))) \<subseteq>
       {''tlccs_setIntegrationTime''}
   \<and> set (called (new_events s (snd (snd (start_scan E (self, s)))))) \<subseteq> {''tlccs_startScan''}
   \<and> set (called (new_events s (snd (snd (get_scan_data E (self, s)))))) \<subseteq>
       {''tlccs_getWavelengthData'', ''tlccs_getScanData''}
   \<and> set (called (new_events s (snd (snd (close E (self, s)))))) \<subseteq> {''tlccs_close''}
   \<and> set (called (new_events s (session E xs s))) \<subseteq>
       {''tlccs_init'', ''tlccs_setIntegrationTime'', ''tlccs_startScan'',
        ''tlccs_getWavelengthData'', ''tlccs_getScanData'', ''tlccs_close''}"
proof -
  have 1: "set (called (new_events s (snd (snd (init E s))))) \<subseteq> {''tlccs_init''}"
    by (simp add: init_events split: option.splits)
  have 2: "set (called (new_events s (snd (snd (set_integration_time E t (self, s)))))) \<subseteq>
       {''tlccs_setIntegrationTime''}"
    by (auto simp: method_defs new_events_def split: prod.splits sum.splits option.splits)
  have 3: "set (called (new_events s (snd (snd (start_scan E (self, s)))))) \<subseteq> {''tlccs_startScan''}"
    by (auto simp: method_defs new_events_def split: prod.splits sum.splits option.splits)
  have 4: "set (called (new_events s (snd (snd (get_scan_data E (self, s)))))) \<subseteq>
       {''tlccs_getWavelengthData'', ''tlccs_getScanData''}"
    by (auto simp: method_defs new_events_def split: prod.splits sum.splits option.splits)
  have 5: "set (called (new_events s (snd (snd (close E (self, s)))))) \<subseteq> {''tlccs_close''}"
    by (auto simp: method_defs new_events_def split: prod.splits sum.splits option.splits)
  obtain es where es: "new_events s (session E xs s) = new_events s (snd (snd (init E s))) @ es"
    "set (called es) \<subseteq>
       {''tlccs_setIntegrationTime'', ''tlccs_startScan'', ''tlccs_getWavelengthData'',
        ''tlccs_getScanData'', ''tlccs_close''}"
    using session_events [of s E xs] by blast
  have 6: "set (called (new_events s (session E xs s))) \<subseteq>
       {''tlccs_init'', ''tlccs_setIntegrationTime'', ''tlccs_startScan'',
        ''tlccs_getWavelengthData'', ''tlccs_getScanData'', ''tlccs_close''}"
    unfolding es(1) by (rule called_append_subset [OF 1 es(2)])
  show ?thesis
    by (intro conjI 1 2 3 4 5 6)
qed

theorem vendor_functions_called_witness:
  "set (called (new_events start_state
     (session sim_env [SetIntegrationTime (PyFloat 0), StartScan, GetScanData, Close]
        start_state))) =
   {''tlccs_init'', ''tlccs_setIntegrationTime'', ''tlccs_startScan'',
    ''tlccs_getWavelengthData'', ''tlccs_getScanData'', ''tlccs_close''}"
  using vendor_functions_called [of start_state sim_env PyNone sim_obj
     "[SetIntegrationTime (PyFloat 0), StartScan, GetScanData, Close]"]
  by (simp add: sim_session)

text \<open>
  C4 as the spec words it (at most five vendor functions) fails: a session that uses
  each operation once calls six distinct vendor functions.
\<close>

theorem six_vendor_functions_called:
  "card (set (called (new_events start_state
     (session sim_env [SetIntegrationTime (PyFloat 0), StartScan, GetScanData, Close]
        start_state)))) = 6"
  by (simp add: sim_session)

subsection \<open>C6: the storage of the two buffers\<close>




subsection \<open>C2: how the operations fail\<close>

text \<open>
  C2, as the code has it. Every public operation wraps its body in
  \<open>try ... except Exception\<close>. A method returns exactly when marshalling its argument
  raised nothing, \<open>self.lib\<close> is a library, and every external call it made returned; the
  construction returns exactly when each of its external calls (\<open>os.chdir\<close>,
  \<open>LoadLibrary\<close>, \<open>tlccs_init\<close>) returned. What an operation raises is either a
  \<open>RuntimeError\<close> whose message starts with the operation's prefix, or an exception that
  is not an \<open>Exception\<close> (\<open>KeyboardInterrupt\<close>, \<open>SystemExit\<close>), which the handler does not
  catch. There is no other failure. The last five conjuncts give, for each operation,
  what it returns or raises from the answers of the environment: the first step of its
  \<open>try\<close> block that raises an exception \<open>e\<close> makes the operation raise
  \<open>RuntimeError(prefix + str(e))\<close> when \<open>e\<close> is an \<open>Exception\<close> and \<open>e\<close> itself, unchanged, when
  it is not; the steps are the marshalling by \<open>c_double\<close>, the lookup on \<open>self.lib\<close> (an
  \<open>AttributeError\<close> when it is \<open>None\<close>), \<open>os.chdir\<close>, \<open>LoadLibrary\<close> and the vendor calls.
\<close>

theorem operations_fail_by_reraising:
  "returned (fst (do_op E x (self, s))) =
     (\<not> conversion_fails E x \<and> lib self \<noteq> None
      \<and> list_all ev_ok (new_events s (snd (snd (do_op E x (self, s))))))
   \<and> (\<forall>e. fst (do_op E x (self, s)) = Inl e \<longrightarrow>
         (\<exists>m. e = Exc RuntimeError (op_prefix x @ m)) \<or> \<not> is_Exception e)
   \<and> returned (fst (init E s)) = list_all ev_ok (new_events s (snd (snd (init E s))))
   \<and> (\<forall>e. fst (init E s) = Inl e \<longrightarrow>
         (\<exists>m. e = Exc RuntimeError (''Failed to load spectrometer DLL: '' @ m))
         \<or> (\<exists>m. e = Exc RuntimeError (''Failed to initialize spectrometer: '' @ m))
         \<or> \<not> is_Exception e)
   \<and> fst (set_integration_time E t (self, s)) =
     (case c_double E t of
        Inl e \<Rightarrow> Inl (if is_Exception e then Exc RuntimeError (''Failed to set integration time: '' @ str e) else e)
      | Inr d \<Rightarrow>
          (case lib self of
             None \<Rightarrow>
               Inl (Exc RuntimeError (''Failed to set integration time: '' @ [quote] @ ''NoneType'' @ [quote] @
                 '' object has no attribute '' @ [quote] @ ''tlccs_setIntegrationTime'' @ [quote]))
           | Some l \<Rightarrow>
               (case fst (foreign E ''tlccs_setIntegrationTime''
                            [C_int (ccs_handle self), C_double d] (ext s)) of
                  Inl e \<Rightarrow> Inl (if is_Exception e then Exc RuntimeError (''Failed to set integration time: '' @ str e) else e)
                | Inr r \<Rightarrow> Inr PyNone)))
   \<and> fst (start_scan E (self, s)) =
     (case lib self of
        None \<Rightarrow>
          Inl (Exc RuntimeError (''Failed to start scan: '' @ [quote] @ ''NoneType'' @ [quote] @
                 '' object has no attribute '' @ [quote] @ ''tlccs_startScan'' @ [quote]))
      | Some l \<Rightarrow>
          (case fst (foreign E ''tlccs_startScan'' [C_int (ccs_handle self)] (ext s)) of
             Inl e \<Rightarrow> Inl (if is_Exception e then Exc RuntimeError (''Failed to start scan: '' @ str e) else e)
           | Inr r \<Rightarrow> Inr PyNone))
   \<and> fst (close E (self, s)) =
     (case lib self of
        None \<Rightarrow>
          Inl (Exc RuntimeError (''Failed to close spectrometer: '' @ [quote] @ ''NoneType'' @ [quote] @
                 '' object has no attribute '' @ [quote] @ ''tlccs_close'' @ [quote]))
      | Some l \<Rightarrow>
          (case fst (foreign E ''tlccs_close'' [C_int (ccs_handle self)] (ext s)) of
             Inl e \<Rightarrow> Inl (if is_Exception e then Exc RuntimeError (''Failed to close spectrometer: '' @ str e) else e)
           | Inr r \<Rightarrow> Inr PyNone))
   \<and> fst (get_scan_data E (self, s)) =
     (case lib self of
        None \<Rightarrow>
          Inl (Exc RuntimeError (''Failed to retrieve scan data: '' @ [quote] @ ''NoneType'' @ [quote] @
                 '' object has no attribute '' @ [quote] @ ''tlccs_getWavelengthData'' @ [quote]))
      | Some l \<Rightarrow>
          (case foreign E ''tlccs_getWavelengthData''
                  [C_int (ccs_handle self), PyIntArg 0, ByRef_array (length (heap s)),
                   C_void_p None, C_void_p None] (ext s) of
             (Inl e, w1) \<Rightarrow> Inl (if is_Exception e then Exc RuntimeError (''Failed to retrieve scan data: '' @ str e) else e)
           | (Inr r1, w1) \<Rightarrow>
               (case fst (foreign E ''tlccs_getScanData''
                            [C_int (ccs_handle self), ByRef_array (Suc (length (heap s)))] w1) of
                  Inl e \<Rightarrow> Inl (if is_Exception e then Exc RuntimeError (''Failed to retrieve scan data: '' @ str e) else e)
                | Inr r2 \<Rightarrow>
                    Inr (PyTuple [PyArray (length (heap s)), PyArray (Suc (length (heap s)))]))))
   \<and> fst (init E s) =
     (case os_chdir E VISA_BIN (ext s) of
        (Some e, w1) \<Rightarrow> Inl (if is_Exception e then Exc RuntimeError (''Failed to load spectrometer DLL: '' @ str e) else e)
      | (None, w1) \<Rightarrow>
          (case LoadLibrary E DLL_NAME w1 of
             (Some e, w2) \<Rightarrow> Inl (if is_Exception e then Exc RuntimeError (''Failed to load spectrometer DLL: '' @ str e) else e)
           | (None, w2) \<Rightarrow>
               (case fst (foreign E ''tlccs_init''
                            [BytesArg ''USB0::0x1313::0x8089::M00912624::RAW'', PyIntArg 1,
                             PyIntArg 1, ByRef_int 0] w2) of
                  Inl e \<Rightarrow> Inl (if is_Exception e then Exc RuntimeError (''Failed to initialize spectrometer: '' @ str e) else e)
                | Inr r \<Rightarrow> Inr PyNone)))"
proof (intro conjI allI impI)
  show "returned (fst (do_op E x (self, s))) =
     (\<not> conversion_fails E x \<and> lib self \<noteq> None
      \<and> list_all ev_ok (new_events s (snd (snd (do_op E x (self, s))))))"
    by (rule do_op_returned)
  show "returned (fst (init E s)) = list_all ev_ok (new_events s (snd (snd (init E s))))"
    by (rule init_returned)
  show "fst (set_integration_time E t (self, s)) =
     (case c_double E t of
        Inl e \<Rightarrow> Inl (if is_Exception e then Exc RuntimeError (''Failed to set integration time: '' @ str e) else e)
      | Inr d \<Rightarrow>
          (case lib self of
             None \<Rightarrow>
               Inl (Exc RuntimeError (''Failed to set integration time: '' @ [quote] @ ''NoneType'' @ [quote] @
                 '' object has no attribute '' @ [quote] @ ''tlccs_setIntegrationTime'' @ [quote]))
           | Some l \<Rightarrow>
               (case fst (foreign E ''tlccs_setIntegrationTime''
                            [C_int (ccs_handle self), C_double d] (ext s)) of
                  Inl e \<Rightarrow> Inl (if is_Exception e then Exc RuntimeError (''Failed to set integration time: '' @ str e) else e)
                | Inr r \<Rightarrow> Inr PyNone)))"
    by (rule set_integration_time_result)
  show "fst (start_scan E (self, s)) =
     (case lib self of
        None \<Rightarrow>
          Inl (Exc RuntimeError (''Failed to start scan: '' @ [quote] @ ''NoneType'' @ [quote] @
                 '' object has no attribute '' @ [quote] @ ''tlccs_startScan'' @ [quote]))
      | Some l \<Rightarrow>
          (case fst (foreign E ''tlccs_startScan'' [C_int (ccs_handle self)] (ext s)) of
             Inl e \<Rightarrow> Inl (if is_Exception e then Exc RuntimeError (''Failed to start scan: '' @ str e) else e)
           | Inr r \<Rightarrow> Inr PyNone))"
    by (rule start_scan_result)
  show "fst (close E (self, s)) =
     (case lib self of
        None \<Rightarrow>
          Inl (Exc RuntimeError (''Failed to close spectrometer: '' @ [quote] @ ''NoneType'' @ [quote] @
                 '' object has no attribute '' @ [quote] @ ''tlccs_close'' @ [quote]))
      | Some l \<Rightarrow>
          (case fst (foreign E ''tlccs_close'' [C_int (ccs_handle self)] (ext s)) of
             Inl e \<Rightarrow> Inl (if is_Exception e then Exc RuntimeError (''Failed to close spectrometer: '' @ str e) else e)
           | Inr r \<Rightarrow> Inr PyNone))"
    by (rule close_result)
  show "fst (get_scan_data E (self, s)) =
     (case lib self of
        None \<Rightarrow>
          Inl (Exc RuntimeError (''Failed to retrieve scan data: '' @ [quote] @ ''NoneType'' @ [quote] @
                 '' object has no attribute '' @ [quote] @ ''tlccs_getWavelengthData'' @ [quote]))
      | Some l \<Rightarrow>
          (case foreign E ''tlccs_getWavelengthData''
                  [C_int (ccs_handle self), PyIntArg 0, ByRef_array (length (heap s)),
                   C_void_p None, C_void_p None] (ext s) of
             (Inl e, w1) \<Rightarrow> Inl (if is_Exception e then Exc RuntimeError (''Failed to retrieve scan data: '' @ str e) else e)
           | (Inr r1, w1) \<Rightarrow>
               (case fst (foreign E ''tlccs_getScanData''
                            [C_int (ccs_handle self), ByRef_array (Suc (length (heap s)))] w1) of
                  Inl e \<Rightarrow> Inl (if is_Exception e then Exc RuntimeError (''Failed to retrieve scan data: '' @ str e) else e)
                | Inr r2 \<Rightarrow>
                    Inr (PyTuple [PyArray (length (heap s)), PyArray (Suc (length (heap s)))]))))"
    by (rule get_scan_data_result)
  show "fst (init E s) =
     (case os_chdir E VISA_BIN (ext s) of
        (Some e, w1) \<Rightarrow> Inl (if is_Exception e then Exc RuntimeError (''Failed to load spectrometer DLL: '' @ str e) else e)
      | (None, w1) \<Rightarrow>
          (case LoadLibrary E DLL_NAME w1 of
             (Some e, w2) \<Rightarrow> Inl (if is_Exception e then Exc RuntimeError (''Failed to load spectrometer DLL: '' @ str e) else e)
           | (None, w2) \<Rightarrow>
               (case fst (foreign E ''tlccs_init''
                            [BytesArg ''USB0::0x1313::0x8089::M00912624::RAW'', PyIntArg 1,
                             PyIntArg 1, ByRef_int 0] w2) of
                  Inl e \<Rightarrow> Inl (if is_Exception e then Exc RuntimeError (''Failed to initialize spectrometer: '' @ str e) else e)
                | Inr r \<Rightarrow> Inr PyNone)))"
    by (rule init_result)
next
  fix e
  assume "fst (do_op E x (self, s)) = Inl e"
  then show "(\<exists>m. e = Exc RuntimeError (op_prefix x @ m)) \<or> \<not> is_Exception e"
    by (rule do_op_failure)
next
  fix e
  assume "fst (init E s) = Inl e"
  then show "(\<exists>m. e = Exc RuntimeError (''Failed to load spectrometer DLL: '' @ m))
         \<or> (\<exists>m. e = Exc RuntimeError (''Failed to initialize spectrometer: '' @ m))
         \<or> \<not> is_Exception e"
    by (rule init_failure)
qed

theorem operations_fail_by_reraising_witness:
  "fst (do_op oserror_env StartScan (sim_obj, sim_state)) =
     Inl (Exc RuntimeError (''Failed to start scan: '' @ ''access violation''))
   \<and> (\<exists>m. Exc RuntimeError (''Failed to start scan: '' @ ''access violation'') =
         Exc RuntimeError (op_prefix StartScan @ m))
   \<and> \<not> returned (fst (do_op oserror_env StartScan (sim_obj, sim_state)))
   \<and> \<not> list_all ev_ok
        (new_events sim_state (snd (snd (do_op oserror_env StartScan (sim_obj, sim_state)))))"
proof -
  note t = operations_fail_by_reraising [of oserror_env StartScan sim_obj sim_state]
  have h: "fst (do_op oserror_env StartScan (sim_obj, sim_state)) =
     Inl (Exc RuntimeError (''Failed to start scan: '' @ ''access violation''))"
    by (simp add: sim_start_scan_oserror)
  have c: "\<not> conversion_fails oserror_env StartScan" "lib sim_obj \<noteq> None"
    by (simp_all add: sim_fields)
  have x: "is_Exception (Exc RuntimeError (''Failed to start scan: '' @ ''access violation''))"
    by simp
  from t have r: "returned (fst (do_op oserror_env StartScan (sim_obj, sim_state))) =
     (\<not> conversion_fails oserror_env StartScan \<and> lib sim_obj \<noteq> None
      \<and> list_all ev_ok
          (new_events sim_state (snd (snd (do_op oserror_env StartScan (sim_obj, sim_state))))))"
    by (rule conjunct1)
  from t have "\<forall>e. fst (do_op oserror_env StartScan (sim_obj, sim_state)) = Inl e \<longrightarrow>
         (\<exists>m. e = Exc RuntimeError (op_prefix StartScan @ m)) \<or> \<not> is_Exception e"
    by (rule conjunct1 [OF conjunct2])
  then have "fst (do_op oserror_env StartScan (sim_obj, sim_state)) =
        Inl (Exc RuntimeError (''Failed to start scan: '' @ ''access violation'')) \<longrightarrow>
      (\<exists>m. Exc RuntimeError (''Failed to start scan: '' @ ''access violation'') =
         Exc RuntimeError (op_prefix StartScan @ m))
      \<or> \<not> is_Exception (Exc RuntimeError (''Failed to start scan: '' @ ''access violation''))"
    by (rule spec)
  from this h have d: "(\<exists>m. Exc RuntimeError (''Failed to start scan: '' @ ''access violation'') =
         Exc RuntimeError (op_prefix StartScan @ m))
      \<or> \<not> is_Exception (Exc RuntimeError (''Failed to start scan: '' @ ''access violation''))"
    by (rule mp)
  from d x have m: "\<exists>m. Exc RuntimeError (''Failed to start scan: '' @ ''access violation'') =
         Exc RuntimeError (op_prefix StartScan @ m)"
    by (rule disj_notD)
  from h r c have n: "\<not> returned (fst (do_op oserror_env StartScan (sim_obj, sim_state)))"
    "\<not> list_all ev_ok
        (new_events sim_state (snd (snd (do_op oserror_env StartScan (sim_obj, sim_state)))))"
    by simp_all
  show ?thesis
    by (intro conjI h m n)
qed

text \<open>
  C2 as the spec words it fails twice. Where \<open>tlccs_startScan\<close> raises a
  \<open>KeyboardInterrupt\<close>, \<open>start_scan\<close> raises that \<open>KeyboardInterrupt\<close> and no \<open>RuntimeError\<close>.
  And \<open>set_integration_time\<close> with a string raises a \<open>RuntimeError\<close> although no underlying
  call raised: none was made, the state is as before.
\<close>

theorem failure_without_reraised_call_failure:
  "fst (foreign interrupt_env ''tlccs_startScan'' [C_int 7] 1) = Inl (Exc KeyboardInterrupt [])
   \<and> fst (start_scan interrupt_env (sim_obj, sim_state)) = Inl (Exc KeyboardInterrupt [])
   \<and> set_integration_time sim_env (PyStr ''fast'') (sim_obj, sim_state) =
       (Inl (Exc RuntimeError ''Failed to set integration time: must be real number, not str''),
        sim_obj, sim_state)"
proof -
  have c: "c_double sim_env (PyStr ''fast'') = Inl (Exc TypeError ''must be real number, not str'')"
    by (simp add: c_double_def)
  have 1: "fst (foreign interrupt_env ''tlccs_startScan'' [C_int 7] 1) =
      Inl (Exc KeyboardInterrupt [])"
    by (simp add: interrupt_env_def sim_env_def)
  have 2: "fst (start_scan interrupt_env (sim_obj, sim_state)) = Inl (Exc KeyboardInterrupt [])"
    by (simp add: start_scan_Some [OF sim_fields(1)] sim_fields interrupt_env_def sim_env_def
        reraise_def)
  have 3: "set_integration_time sim_env (PyStr ''fast'') (sim_obj, sim_state) =
       (Inl (Exc RuntimeError ''Failed to set integration time: must be real number, not str''),
        sim_obj, sim_state)"
    by (simp add: set_integration_time_conv [OF c] reraise_def)
  show ?thesis
    by (intro conjI 1 2 3)
qed

end
